theory Spec2Isabelle
  imports Complex_Main
begin

section \<open>Strings, numbers and exceptions of the script\<close>

text \<open>
  A JavaScript string is a sequence of UTF-16 code units, and \<open>length\<close> counts code
  units. A string is a list of code units here; \<open>js\<close> embeds a literal of the script.
\<close>

type_synonym jsstring = "nat list"

definition js :: "string \<Rightarrow> jsstring" where
  "js s = map of_char s"

text \<open>
  \<open>String.prototype.trim\<close> removes white space and line terminators from both ends:
  TAB, LF, VT, FF, CR, SP, NBSP, U+1680, U+2000 to U+200A, U+2028, U+2029, U+202F,
  U+205F, U+3000 and U+FEFF.
\<close>

definition isWhiteSpace :: "nat \<Rightarrow> bool" where
  "isWhiteSpace c \<longleftrightarrow>
     c \<in> set [9, 10, 11, 12, 13, 32, 160, 5760, 8232, 8233, 8239, 8287, 12288, 65279]
     \<or> (8192 \<le> c \<and> c \<le> 8202)"

definition trim :: "jsstring \<Rightarrow> jsstring" where
  "trim s = rev (dropWhile isWhiteSpace (rev (dropWhile isWhiteSpace s)))"

text \<open>
  \<open>String.prototype.toLowerCase\<close> is the platform's Unicode lower-casing. It is
  written out for the letters of Basic Latin and Latin-1; other code units are left as
  they are. Only \<open>getCharacterIcon\<close> uses it.
\<close>

definition lowerUnit :: "nat \<Rightarrow> nat" where
  "lowerUnit c =
     (if (65 \<le> c \<and> c \<le> 90) \<or> (192 \<le> c \<and> c \<le> 214) \<or> (216 \<le> c \<and> c \<le> 222)
      then c + 32 else c)"

definition toLowerCase :: "jsstring \<Rightarrow> jsstring" where
  "toLowerCase s = map lowerUnit s"

text \<open>\<open>s.includes(sub)\<close>: \<open>sub\<close> occurs in \<open>s\<close> as a contiguous run.\<close>

fun str_includes :: "jsstring \<Rightarrow> jsstring \<Rightarrow> bool" where
  "str_includes [] sub = (sub = [])"
| "str_includes (c # cs) sub = (take (length sub) (c # cs) = sub \<or> str_includes cs sub)"

text \<open>A non-negative integer interpolated into a template literal: its decimal digits.\<close>

function dec :: "nat \<Rightarrow> jsstring" where
  "dec n = (if n < 10 then [48 + n] else dec (n div 10) @ [48 + n mod 10])"
  by pat_completeness auto
termination
  by (relation "measure id") auto

text \<open>
  A value interpolated into a template literal or tested for truth that is either
  \<open>null\<close> or a string: \<open>null\<close> prints as the four letters, and \<open>null\<close> and the
  empty string are the falsy ones.
\<close>

definition display :: "jsstring option \<Rightarrow> jsstring" where
  "display v = (case v of None \<Rightarrow> js ''null'' | Some t \<Rightarrow> t)"

definition truthy :: "jsstring option \<Rightarrow> bool" where
  "truthy v = (case v of None \<Rightarrow> False | Some t \<Rightarrow> t \<noteq> [])"

text \<open>
  What a \<open>throw\<close> carries. \<open>Error\<close> is thrown by the script itself, the other two by
  the platform; each has its \<open>message\<close>.
\<close>

datatype exn = Error jsstring | TypeError jsstring | SyntaxError jsstring

fun message :: "exn \<Rightarrow> jsstring" where
  "message (Error m) = m"
| "message (TypeError m) = m"
| "message (SyntaxError m) = m"

text \<open>
  \<open>Math.round\<close> rounds to the nearest integer, a half towards plus infinity. The
  quotient it is applied to is kept exact (a rational), not a double.
\<close>

definition Math_round :: "rat \<Rightarrow> int" where
  "Math_round x = \<lfloor>x + 1 / 2\<rfloor>"

text \<open>
  \<open>scores.reduce((a, b) => a + b)\<close> has no initial value: on an empty array it throws,
  otherwise it folds from the first element.
\<close>

definition reduce_add :: "int list \<Rightarrow> exn + int" where
  "reduce_add xs =
     (case xs of
        [] \<Rightarrow> Inl (TypeError (js ''Reduce of empty array with no initial value''))
      | x # rest \<Rightarrow> Inr (foldl (+) x rest))"

section \<open>Data of the session\<close>

text \<open>
  One item of the analysis, with the fields \<open>updateUI\<close> reads. The scores are taken
  to be integers, as the endpoint's contract says (numeric scores from 0 to 100).
\<close>

record analysis_point =
  keyEvent :: jsstring
  characterFocus :: jsstring
  TensionScore :: int
  TensionSummary :: jsstring
  PacingScore :: int
  PacingSummary :: jsstring
  AgencyScore :: int
  AgencySummary :: jsstring
  ResonanceScore :: int
  ResonanceSummary :: jsstring

text \<open>
  What \<open>JSON.parse(result.analysis)\<close> can yield. The script inspects the top-level
  shape only (\<open>Array.isArray\<close>, \<open>length\<close>), so every shape is kept; the items of
  an array are analysis points. An object carries the text its \<open>length\<close> property
  prints as, if it has one.
\<close>

datatype analysis_json =
    JArray "analysis_point list"
  | JNull
  | JBoolean
  | JNumber
  | JString jsstring
  | JObject "jsstring option"

datatype parse_result = ParseThrows exn | Parses analysis_json

text \<open>
  What awaiting \<open>fetch\<close> and \<open>response.json()\<close> gives \<open>fetchAPI\<close>: a rejection
  (no connection, a body that is not JSON), a reply whose status is not a success
  together with its \<open>error\<close> field, or a successful reply with its data.
\<close>

datatype 'a fetched = Rejected exn | NotOk nat "jsstring option" | Ok 'a

text \<open>
  An entry of \<open>chatHistory\<close>: \<open>{ role: ..., parts: [{ text: ... }] }\<close>, the role being
  \<open>"user"\<close> or \<open>"model"\<close>.
\<close>

datatype role = User | Model

record chat_message =
  msg_role :: role
  msg_parts :: "jsstring list"

text \<open>
  The requests \<open>fetchAPI\<close> sends, by endpoint, with the fields of the payload:
  \<open>/analyze {text}\<close>, \<open>/extract_characters {text}\<close>, \<open>/search_excerpt {query}\<close>,
  \<open>/chat {story, history, activeCharacter}\<close>.
\<close>

datatype request =
    Analyze jsstring
  | ExtractCharacters jsstring
  | SearchExcerpt jsstring
  | Chat jsstring "chat_message list" jsstring

section \<open>What is on the page\<close>

record metric_view =
  metric_icon :: jsstring
  metric_label :: jsstring
  metric_score :: int
  metric_color :: jsstring
  metric_summary :: jsstring

record card =
  card_border :: jsstring
  card_point :: nat
  card_label :: jsstring
  card_event :: jsstring
  card_focus :: jsstring
  card_metrics :: "metric_view list"

text \<open>
  The content of \<open>analysisOutput\<close>: what the page shipped with, the cards of an
  analysis, or the red box with an error text.
\<close>

datatype analysis_view = PageMarkup | Cards "card list" | ErrorCard jsstring

record summary_panel =
  conflict :: jsstring
  climax :: jsstring
  avg_tension :: int
  main_character :: jsstring

text \<open>
  The content of \<open>chatOutput\<close>: a centred notice, or a message bubble with its
  alignment class, its background class, the name above it and its text.
\<close>

datatype chat_view = Notice jsstring | Bubble jsstring jsstring jsstring jsstring

text \<open>
  A button of the character selector: the emoji and the name that are written into its
  two spans as mark-up (line 429), the text content the browser then reads from it, and
  whether it carries the classes of the selected character (\<open>bg-blue-600\<close>,
  \<open>text-white\<close>, \<open>border-blue-600\<close>). The text is \<open>None\<close> where what the HTML
  parser makes of the name is left open (see \<open>span_text\<close>), and so is the selection
  that is decided by such a text.
\<close>

record slot =
  slot_emoji :: jsstring
  slot_name :: jsstring
  slot_text :: "jsstring option"
  slot_selected :: "bool option"

record download =
  file_name :: jsstring
  file_data :: "analysis_point list"

text \<open>
  The script's variables (lines 9 to 15) and the properties of the page's elements that
  it reads or writes. \<open>characterSlots\<close> is \<open>None\<close> when the page has no such element
  (\<open>renderCharacterSlots\<close> tests for it); the other elements are taken to exist, as
  the script uses them without a test. \<open>chatInput_focus\<close> records that
  \<open>chatInput.focus()\<close> gave the chat input the focus: the call moves the focus to an
  enabled input and does nothing on a disabled one. The texts of the notices, bubbles and
  cards are the ones the script writes into the mark-up. \<open>requests\<close>, \<open>alerts\<close> and
  \<open>downloads\<close> log what left the page: the requests sent by \<open>fetchAPI\<close>, the alert
  boxes, the files saved. \<open>console.error\<close> is left out.
\<close>

record state =
  isAnalyzing :: bool
  isSearching :: bool
  isChatting :: bool
  chatHistory :: "chat_message list"
  lastAnalysisData :: "analysis_point list option"
  activeCharacter :: "jsstring option"
  chart_data :: "int list"
  storyInput_value :: jsstring
  statusMessage_text :: jsstring
  statusMessage_red :: bool
  analyzeButton_disabled :: bool
  analysisOutput :: analysis_view
  analysisOutputSummary :: "summary_panel option"
  bookTitleInput_value :: jsstring
  findSummaryButton_disabled :: bool
  searchStatusMessage_text :: jsstring
  searchStatusMessage_links :: "(jsstring \<times> jsstring) list"
  searchStatusMessage_red :: bool
  summaryOutput_hidden :: bool
  summaryTextarea_value :: jsstring
  chatOutput :: "chat_view list"
  chatInput_value :: jsstring
  chatInput_disabled :: bool
  chatInput_focus :: bool
  sendChatButton_disabled :: bool
  chatStatusMessage_text :: jsstring
  chatStatusMessage_red :: bool
  characterSlots :: "slot list option"
  requests :: "request list"
  alerts :: "jsstring list"
  downloads :: "download list"

section \<open>The API client\<close>

text \<open>
  \<open>fetchAPI(endpoint, payload)\<close>. Up to its first \<open>await\<close> it sends the request;
  what it then returns or throws depends on the reply alone: the server's \<open>error\<close>
  text when the status is not a success and that text is truthy, otherwise the text
  made from the status.
\<close>

definition fetchAPI_send :: "request \<Rightarrow> state \<Rightarrow> state" where
  "fetchAPI_send r s = s\<lparr>requests := requests s @ [r]\<rparr>"

definition fetchAPI_result :: "'a fetched \<Rightarrow> exn + 'a" where
  "fetchAPI_result reply =
     (case reply of
        Rejected e \<Rightarrow> Inl e
      | NotOk status err \<Rightarrow>
          Inl (Error (if truthy err then display err else js ''Server error: '' @ dec status))
      | Ok data \<Rightarrow> Inr data)"

section \<open>Character selection\<close>

text \<open>\<open>getCharacterIcon(name)\<close>: the first group with a word in the lower-cased name.\<close>

definition getCharacterIcon :: "jsstring \<Rightarrow> jsstring" where
  "getCharacterIcon name =
     (let lowerName = toLowerCase name in
      if str_includes lowerName (js ''monster'') \<or> str_includes lowerName (js ''dracula'')
         \<or> str_includes lowerName (js ''hyde'') \<or> str_includes lowerName (js ''villain'')
      then [55358, 56761]
      else if str_includes lowerName (js ''detective'') \<or> str_includes lowerName (js ''sherlock'')
      then [55357, 56693, 65039]
      else if str_includes lowerName (js ''narrator'') \<or> str_includes lowerName (js ''author'')
         \<or> str_includes lowerName (js ''writer'')
      then [9997, 65039]
      else if str_includes lowerName (js ''old'') \<or> str_includes lowerName (js ''elder'')
         \<or> str_includes lowerName (js ''grand'')
      then [55357, 56436]
      else if str_includes lowerName (js ''girl'') \<or> str_includes lowerName (js ''woman'')
         \<or> str_includes lowerName (js ''lady'') \<or> str_includes lowerName (js ''jane'')
         \<or> str_includes lowerName (js ''mary'')
      then [55357, 56425, 8205, 55358, 56753]
      else if str_includes lowerName (js ''boy'') \<or> str_includes lowerName (js ''man'')
         \<or> str_includes lowerName (js ''john'') \<or> str_includes lowerName (js ''mr.'')
      then [55358, 56788]
      else [55358, 56785])"

text \<open>
  The text content of a span whose mark-up is the given text (the name is written into
  \<open>innerHTML\<close> as it is, line 429). A text without \<open><\<close>, \<open>&\<close>, NUL and CR is read
  back unchanged. When such a text is followed by \<open><\<close> and then by letters only up to
  its end, the parser takes everything from the \<open><\<close> on, together with the closing
  tag of the span that follows, as the start tag of an unknown element: the text content
  is the part before the \<open><\<close>. What the parser makes of any other text is left open.
\<close>

definition markup_free :: "jsstring \<Rightarrow> bool" where
  "markup_free t = list_all (\<lambda>c. c \<noteq> 0 \<and> c \<noteq> 13 \<and> c \<noteq> 38 \<and> c \<noteq> 60) t"

definition isAsciiLetter :: "nat \<Rightarrow> bool" where
  "isAsciiLetter c \<longleftrightarrow> (65 \<le> c \<and> c \<le> 90) \<or> (97 \<le> c \<and> c \<le> 122)"

definition span_text :: "jsstring \<Rightarrow> jsstring option" where
  "span_text t =
     (let before = takeWhile (\<lambda>c. c \<noteq> 60) t;
          after = drop (length before + 1) t
      in if markup_free t then Some t
         else if markup_free before \<and> length before < length t \<and> after \<noteq> []
                 \<and> list_all isAsciiLetter after
         then Some before
         else None)"

text \<open>\<open>chatInput.focus()\<close>: a disabled input does not take the focus.\<close>

definition focus_chatInput :: "state \<Rightarrow> state" where
  "focus_chatInput s = (if chatInput_disabled s then s else s\<lparr>chatInput_focus := True\<rparr>)"

text \<open>
  \<open>setActiveCharacter(name)\<close>; \<open>name\<close> is a string, or \<open>null\<close> when \<open>updateUI\<close>
  found no character. Every button with the class \<open>character-icon\<close> is selected or
  not by whether its text content includes the name (line 450).
\<close>

definition setActiveCharacter :: "jsstring option \<Rightarrow> state \<Rightarrow> state" where
  "setActiveCharacter name s =
     focus_chatInput
       (s\<lparr>activeCharacter := name,
          chatHistory := [],
          chatOutput :=
            [Notice (js ''Now chatting as '' @ display name @ js ''. Ask them about the story context!'')],
          characterSlots :=
            map_option
              (map (\<lambda>icon. icon\<lparr>slot_selected :=
                      map_option (\<lambda>t. str_includes t (display name)) (slot_text icon)\<rparr>))
              (characterSlots s)\<rparr>)"

text \<open>\<open>renderCharacterSlots(characters)\<close>.\<close>

definition renderCharacterSlots :: "jsstring list \<Rightarrow> state \<Rightarrow> state" where
  "renderCharacterSlots characters s =
     (case characterSlots s of
        None \<Rightarrow> s
      | Some _ \<Rightarrow>
          (let s1 = s\<lparr>characterSlots :=
                 Some (map (\<lambda>name. \<lparr>slot_emoji = getCharacterIcon name, slot_name = name,
                                     slot_text =
                                       map_option (\<lambda>t. getCharacterIcon name @ t) (span_text name),
                                     slot_selected = Some False\<rparr>) characters)\<rparr>
           in if length characters > 0 then setActiveCharacter (Some (hd characters)) s1 else s1))"

section \<open>Story analysis\<close>

text \<open>
  \<open>initializeChart()\<close>: the chart starts with its seven labels and seven zeros. The
  labels never change afterwards.
\<close>

definition chart_labels :: "jsstring list" where
  "chart_labels =
     [js ''Start'', js ''Point 1'', js ''Point 2'', js ''Midpoint'', js ''Point 4'', js ''Point 5'',
      js ''Climax/End'']"

definition initializeChart :: "state \<Rightarrow> state" where
  "initializeChart s = s\<lparr>chart_data := [0, 0, 0, 0, 0, 0, 0]\<rparr>"

text \<open>The helper of \<open>updateUI\<close> for the colour of a metric's score (line 256).\<close>

definition getMetricColor :: "int \<Rightarrow> jsstring" where
  "getMetricColor score =
     (if score > 80 then js ''text-red-600''
      else if score > 50 then js ''text-amber-600''
      else js ''text-green-600'')"

text \<open>The border of a card, from the item's tension score (line 260).\<close>

definition cardBorderColor :: "analysis_point \<Rightarrow> jsstring" where
  "cardBorderColor item =
     (if TensionScore item > 70 then js ''border-red-500''
      else if TensionScore item > 40 then js ''border-amber-500''
      else js ''border-green-500'')"

text \<open>The four metrics of a card, in the order of the array literal (lines 276 to 289).\<close>

definition metric :: "jsstring \<Rightarrow> int \<Rightarrow> jsstring \<Rightarrow> jsstring \<Rightarrow> metric_view" where
  "metric label score summary icon =
     \<lparr>metric_icon = icon, metric_label = label, metric_score = score,
      metric_color = getMetricColor score, metric_summary = summary\<rparr>"

definition render_metrics :: "analysis_point \<Rightarrow> metric_view list" where
  "render_metrics item =
     [metric (js ''Tension'') (TensionScore item) (TensionSummary item) [9889],
      metric (js ''Pacing'') (PacingScore item) (PacingSummary item) [9201, 65039],
      metric (js ''Agency'') (AgencyScore item) (AgencySummary item) [55357, 56481],
      metric (js ''Resonance'') (ResonanceScore item) (ResonanceSummary item) [10084, 65039]]"

text \<open>
  The card of the item at \<open>index\<close> (lines 259 to 293); a label beyond the seventh is
  \<open>undefined\<close>.
\<close>

definition render_card :: "nat \<Rightarrow> analysis_point \<Rightarrow> card" where
  "render_card index item =
     \<lparr>card_border = cardBorderColor item,
      card_point = index + 1,
      card_label = (if index < length chart_labels then chart_labels ! index else js ''undefined''),
      card_event = keyEvent item,
      card_focus = characterFocus item,
      card_metrics = render_metrics item\<rparr>"

text \<open>
  \<open>updateUI(analysisData, characters)\<close>. It throws where the summary panel reads
  \<open>analysisData[0]\<close> and \<open>analysisData[6]\<close> of a shorter array, after the chart and
  the cards are written; what it had written stays. The state of the download button is
  left out: \<open>downloadAnalysisData\<close> tests \<open>lastAnalysisData\<close> itself.
\<close>

definition updateUI :: "analysis_point list \<Rightarrow> jsstring list \<Rightarrow> state \<Rightarrow> (exn \<times> state) + state" where
  "updateUI analysisData characters s =
     (let scores = map TensionScore analysisData;
          s1 = s\<lparr>chart_data := scores\<rparr>;
          s2 = s1\<lparr>analysisOutput :=
                 Cards (map (\<lambda>(index, item). render_card index item)
                          (zip [0 ..< length analysisData] analysisData))\<rparr>
      in if length analysisData < 7
         then Inl (TypeError (js ''Cannot read properties of undefined (reading keyEvent)''), s2)
         else
           (case reduce_add scores of
              Inl e \<Rightarrow> Inl (e, s2)
            | Inr added \<Rightarrow>
                (let s3 = s2\<lparr>analysisOutputSummary :=
                       Some \<lparr>conflict = keyEvent (analysisData ! 0),
                             climax = keyEvent (analysisData ! 6),
                             avg_tension = Math_round (of_int added / of_nat (length scores)),
                             main_character = characterFocus (analysisData ! 0)\<rparr>\<rparr>;
                     s4 = (if length characters > 0
                           then (renderCharacterSlots characters s3)
                                  \<lparr>chatStatusMessage_text :=
                                     js ''Character list loaded. Click an icon to start chatting!''\<rparr>
                           else setActiveCharacter None
                                  (s3\<lparr>chatStatusMessage_text :=
                                     js ''Ready to chat, but no specific characters were identified in the text.''\<rparr>))
                 in Inr (s4\<lparr>statusMessage_text :=
                              js ''Analysis complete! 4-Dimensional metrics mapped and chat enabled. Switch to the Chat tab to talk to your characters.'',
                            chatHistory := [],
                            chatInput_value := [],
                            chatInput_disabled := False,
                            sendChatButton_disabled := False,
                            chatOutput :=
                              [Notice (js ''Chat mode is active. Select a character icon to begin!'')]\<rparr>))))"

text \<open>
  \<open>${analysisData.length}\<close> in the message of the structure error: the length of an
  array or of a string, the \<open>length\<close> property of an object, \<open>undefined\<close> for a
  number or a boolean. Reading a property of \<open>null\<close> throws (the text is the
  engine's).
\<close>

definition length_text :: "analysis_json \<Rightarrow> exn + jsstring" where
  "length_text v =
     (case v of
        JArray items \<Rightarrow> Inr (dec (length items))
      | JNull \<Rightarrow> Inl (TypeError (js ''Cannot read properties of null (reading length)''))
      | JBoolean \<Rightarrow> Inr (js ''undefined'')
      | JNumber \<Rightarrow> Inr (js ''undefined'')
      | JString t \<Rightarrow> Inr (dec (length t))
      | JObject len \<Rightarrow> (case len of None \<Rightarrow> Inr (js ''undefined'') | Some t \<Rightarrow> Inr t))"

text \<open>
  Lines 357 to 359: the test \<open>!Array.isArray(analysisData) || analysisData.length !== 7\<close>
  and the \<open>throw\<close> under it, whose message is built first.
\<close>

definition structure_error :: "analysis_json \<Rightarrow> exn" where
  "structure_error v =
     (case length_text v of
        Inl e \<Rightarrow> e
      | Inr t \<Rightarrow> Error (js ''Analysis structure error: Expected 7 items, got '' @ t @ js ''.''))"

definition check_structure :: "analysis_json \<Rightarrow> exn + analysis_point list" where
  "check_structure v =
     (case v of
        JArray items \<Rightarrow> if length items \<noteq> 7 then Inl (structure_error v) else Inr items
      | _ \<Rightarrow> Inl (structure_error v))"

text \<open>The \<open>catch\<close> and the \<open>finally\<close> block of \<open>handleAnalysis\<close>.\<close>

definition analysis_catch :: "exn \<Rightarrow> state \<Rightarrow> state" where
  "analysis_catch error s =
     s\<lparr>analysisOutput := ErrorCard (js ''Error: '' @ message error),
       statusMessage_text := js ''Analysis failed.'',
       statusMessage_red := True,
       chatInput_disabled := True,
       sendChatButton_disabled := True\<rparr>"

definition analysis_finally :: "state \<Rightarrow> state" where
  "analysis_finally s = s\<lparr>isAnalyzing := False, analyzeButton_disabled := False\<rparr>"

text \<open>
  \<open>handleAnalysis\<close> is an async function with two \<open>await\<close>s, so it runs in three
  pieces, and other handlers may run between them. Each piece returns the state it
  leaves and, when it stops at an \<open>await\<close>, the local variable the next piece needs.

  First piece, lines 333 to 354: the guards, the busy flag, the request to
  \<open>/analyze\<close>.
\<close>

definition handleAnalysis_start :: "state \<Rightarrow> state \<times> jsstring option" where
  "handleAnalysis_start s =
     (if isAnalyzing s then (s, None)
      else
        (let storyText = trim (storyInput_value s) in
         if length storyText < 100
         then (s\<lparr>statusMessage_text :=
                   js ''Error: Please enter a longer story (at least 100 characters) for a meaningful analysis.'',
                 statusMessage_red := True\<rparr>, None)
         else
           (fetchAPI_send (Analyze storyText)
              (s\<lparr>statusMessage_red := False,
                 isAnalyzing := True,
                 analyzeButton_disabled := True,
                 statusMessage_text := js ''Analyzing story across 4 dimensions... Please wait.'',
                 lastAnalysisData := None,
                 chatInput_disabled := True,
                 sendChatButton_disabled := True\<rparr>),
            Some storyText)))"

text \<open>
  Second piece, lines 354 to 364: the reply of \<open>/analyze\<close>, \<open>JSON.parse\<close>, the
  structure test, \<open>lastAnalysisData\<close>, the request to \<open>/extract_characters\<close>.
\<close>

definition handleAnalysis_analyzed ::
  "jsstring \<Rightarrow> parse_result fetched \<Rightarrow> state \<Rightarrow> state \<times> analysis_point list option" where
  "handleAnalysis_analyzed storyText reply s =
     (case fetchAPI_result reply of
        Inl e \<Rightarrow> (analysis_finally (analysis_catch e s), None)
      | Inr (ParseThrows e) \<Rightarrow> (analysis_finally (analysis_catch e s), None)
      | Inr (Parses v) \<Rightarrow>
          (case check_structure v of
             Inl e \<Rightarrow> (analysis_finally (analysis_catch e s), None)
           | Inr analysisData \<Rightarrow>
               (fetchAPI_send (ExtractCharacters storyText)
                  (s\<lparr>lastAnalysisData := Some analysisData\<rparr>),
                Some analysisData)))"

text \<open>
  Third piece, lines 364 to 382: the reply of \<open>/extract_characters\<close> (its
  \<open>characters\<close> field, or the empty list when the field is missing), \<open>updateUI\<close>.
\<close>

definition handleAnalysis_extracted ::
  "analysis_point list \<Rightarrow> jsstring list option fetched \<Rightarrow> state \<Rightarrow> state" where
  "handleAnalysis_extracted analysisData reply s =
     (case fetchAPI_result reply of
        Inl e \<Rightarrow> analysis_finally (analysis_catch e s)
      | Inr charResult \<Rightarrow>
          (let characters = (case charResult of None \<Rightarrow> [] | Some cs \<Rightarrow> cs) in
           case updateUI analysisData characters s of
             Inl (e, s') \<Rightarrow> analysis_finally (analysis_catch e s')
           | Inr s' \<Rightarrow> analysis_finally s'))"

text \<open>A whole run of \<open>handleAnalysis\<close> with nothing else running between its pieces.\<close>

definition handleAnalysis ::
  "parse_result fetched \<Rightarrow> jsstring list option fetched \<Rightarrow> state \<Rightarrow> state" where
  "handleAnalysis analyzeReply charactersReply s =
     (case handleAnalysis_start s of
        (s1, None) \<Rightarrow> s1
      | (s1, Some storyText) \<Rightarrow>
          (case handleAnalysis_analyzed storyText analyzeReply s1 of
             (s2, None) \<Rightarrow> s2
           | (s2, Some analysisData) \<Rightarrow> handleAnalysis_extracted analysisData charactersReply s2))"

text \<open>
  \<open>downloadAnalysisData()\<close>. \<open>today\<close> is the date the clock gives, or \<open>None\<close> when
  the platform throws in the \<open>try\<close> block before the link is clicked.
\<close>

definition downloadAnalysisData :: "jsstring option \<Rightarrow> state \<Rightarrow> state" where
  "downloadAnalysisData today s =
     (case lastAnalysisData s of
        None \<Rightarrow> s\<lparr>alerts := alerts s @ [js ''Please run a successful story analysis first.'']\<rparr>
      | Some analysisData \<Rightarrow>
          (case today of
             None \<Rightarrow>
               s\<lparr>alerts := alerts s @ [js ''Failed to generate or download the JSON file.'']\<rparr>
           | Some date \<Rightarrow>
               s\<lparr>downloads := downloads s @
                    [\<lparr>file_name = js ''story-analysis-'' @ date @ js ''.json'',
                      file_data = analysisData\<rparr>],
                 alerts := alerts s @ [js ''Analysis data download started!'']\<rparr>))"

section \<open>Excerpt search\<close>

text \<open>
  The status line of the search shows a text and, after \<open>innerHTML\<close> was set, the
  links to the sources (address and title); setting \<open>textContent\<close> removes the links.
\<close>

definition searchStatus :: "jsstring \<Rightarrow> state \<Rightarrow> state" where
  "searchStatus t s = s\<lparr>searchStatusMessage_text := t, searchStatusMessage_links := []\<rparr>"

definition copySummaryToInput :: "state \<Rightarrow> state" where
  "copySummaryToInput s =
     searchStatus (js ''Excerpt copied! Ready for Step 2.'')
       (s\<lparr>storyInput_value := summaryTextarea_value s, summaryOutput_hidden := True\<rparr>)"

text \<open>The data of a reply of \<open>/search_excerpt\<close>: \<open>excerpt\<close>, and \<open>sources\<close> as pairs of title and address.\<close>

record search_result =
  excerpt :: "jsstring option"
  sources :: "(jsstring \<times> jsstring) list option"

text \<open>\<open>findBookSummary\<close>, lines 150 to 166: up to the \<open>await\<close>; \<open>True\<close> when it stops there.\<close>

definition findBookSummary_start :: "state \<Rightarrow> state \<times> bool" where
  "findBookSummary_start s =
     (if isSearching s then (s, False)
      else
        (let query = trim (bookTitleInput_value s) in
         if length query < 5
         then ((searchStatus
                  (js ''Please enter a title and a specific section (e.g., '' @ [39]
                   @ js ''Chapter 5 of Dracula'' @ [39] @ js '').'') s)
                 \<lparr>searchStatusMessage_red := True\<rparr>, False)
         else
           (fetchAPI_send (SearchExcerpt query)
              (searchStatus (js ''Searching for '' @ [34] @ query @ [34] @ js ''...'')
                 (s\<lparr>searchStatusMessage_red := False,
                    isSearching := True,
                    findSummaryButton_disabled := True,
                    summaryOutput_hidden := True\<rparr>)),
            True)))"

text \<open>\<open>findBookSummary\<close>, lines 166 to 191: from the reply on.\<close>

definition findBookSummary_resume :: "search_result fetched \<Rightarrow> state \<Rightarrow> state" where
  "findBookSummary_resume reply s =
     (let s' =
        (case fetchAPI_result reply of
           Inl error \<Rightarrow>
             (searchStatus (js ''Search failed: '' @ message error) s)
               \<lparr>searchStatusMessage_red := True\<rparr>
         | Inr result \<Rightarrow>
             if truthy (excerpt result)
             then
               (let s1 = searchStatus
                           (js ''Excerpt found! Review the text below and copy it for analysis.'')
                           (s\<lparr>summaryTextarea_value := trim (display (excerpt result)),
                              summaryOutput_hidden := False\<rparr>)
                in case sources result of
                     None \<Rightarrow> s1
                   | Some srcs \<Rightarrow>
                       if length srcs > 0
                       then s1\<lparr>searchStatusMessage_text := js ''Excerpt found! Sources: '',
                               searchStatusMessage_links := map (\<lambda>(title, uri). (uri, title)) srcs\<rparr>
                       else s1)
             else searchStatus (js ''Could not find that specific excerpt. Try a different query.'') s)
      in s'\<lparr>isSearching := False, findSummaryButton_disabled := False\<rparr>)"

text \<open>A whole run of \<open>findBookSummary\<close> with nothing else running between its pieces.\<close>

definition findBookSummary :: "search_result fetched \<Rightarrow> state \<Rightarrow> state" where
  "findBookSummary reply s =
     (case findBookSummary_start s of
        (s1, False) \<Rightarrow> s1
      | (s1, True) \<Rightarrow> findBookSummary_resume reply s1)"

section \<open>Character chat\<close>

text \<open>\<open>renderMessage(role, text)\<close> appends a bubble to \<open>chatOutput\<close>.\<close>

definition renderMessage :: "role \<Rightarrow> jsstring \<Rightarrow> state \<Rightarrow> state" where
  "renderMessage r t s =
     (let isUser = (r = User);
          bgColor = (if isUser then js ''bg-blue-50'' else js ''bg-gray-100'');
          alignment = (if isUser then js ''self-end'' else js ''self-start'');
          characterName =
            (if isUser then js ''You''
             else if truthy (activeCharacter s) then display (activeCharacter s)
             else js ''Character AI'')
      in s\<lparr>chatOutput := chatOutput s @ [Bubble alignment bgColor characterName t]\<rparr>)"

text \<open>\<open>handleChat\<close>, lines 487 to 513: up to the \<open>await\<close>; \<open>True\<close> when it stops there.\<close>

definition handleChat_start :: "state \<Rightarrow> state \<times> bool" where
  "handleChat_start s =
     (if isChatting s \<or> chatInput_disabled s then (s, False)
      else
        (let userText = trim (chatInput_value s);
             storyContext = trim (storyInput_value s)
         in
         if userText = [] then (s, False)
         else if storyContext = []
         then (s\<lparr>chatStatusMessage_text :=
                   js ''Error: Please run a successful analysis first to provide character context!''\<rparr>,
               False)
         else if \<not> truthy (activeCharacter s)
         then (s\<lparr>chatStatusMessage_text :=
                   js ''Error: Please select a character icon to start chatting!''\<rparr>,
               False)
         else
           (let s1 = s\<lparr>chatHistory := chatHistory s @ [\<lparr>msg_role = User, msg_parts = [userText]\<rparr>]\<rparr>;
                s2 = renderMessage User userText s1;
                s3 = s2\<lparr>chatInput_value := [],
                        isChatting := True,
                        sendChatButton_disabled := True,
                        chatStatusMessage_text := display (activeCharacter s2) @ js '' is thinking...''\<rparr>
            in (fetchAPI_send (Chat storyContext (chatHistory s3) (display (activeCharacter s3))) s3,
                True))))"

text \<open>
  \<open>handleChat\<close>, lines 513 to 534: from the reply on. The data of a reply of \<open>/chat\<close> is
  its \<open>response\<close> field, if it has one.
\<close>

definition handleChat_resume :: "jsstring option fetched \<Rightarrow> state \<Rightarrow> state" where
  "handleChat_resume reply s =
     (let s' =
        (case fetchAPI_result reply of
           Inl error \<Rightarrow>
             s\<lparr>chatStatusMessage_text := js ''Chat failed: '' @ message error,
               chatStatusMessage_red := True\<rparr>
         | Inr response \<Rightarrow>
             if truthy response
             then
               (renderMessage Model (display response)
                  (s\<lparr>chatHistory := chatHistory s @
                       [\<lparr>msg_role = Model, msg_parts = [display response]\<rparr>]\<rparr>))
                 \<lparr>chatStatusMessage_text := js ''Response received.''\<rparr>
             else s\<lparr>chatStatusMessage_text := js ''Error: No valid response from the character AI.''\<rparr>)
      in focus_chatInput (s'\<lparr>isChatting := False, sendChatButton_disabled := False\<rparr>))"

text \<open>A whole run of \<open>handleChat\<close> with nothing else running between its pieces.\<close>

definition handleChat :: "jsstring option fetched \<Rightarrow> state \<Rightarrow> state" where
  "handleChat reply s =
     (case handleChat_start s of
        (s1, False) \<Rightarrow> s1
      | (s1, True) \<Rightarrow> handleChat_resume reply s1)"

text \<open>
  The replies after which the second piece takes the branch of line 519: the call did not
  fail and \<open>result.response\<close> is truthy, that is, the field is there and not the empty
  string. \<open>response_of\<close> is the text of that field.
\<close>

definition truthy_response :: "jsstring option fetched \<Rightarrow> bool" where
  "truthy_response reply = (case reply of Ok response \<Rightarrow> truthy response | _ \<Rightarrow> False)"

definition response_of :: "jsstring option fetched \<Rightarrow> jsstring" where
  "response_of reply = (case reply of Ok response \<Rightarrow> display response | _ \<Rightarrow> [])"

text \<open>
  The replies with which the second piece of \<open>handleAnalysis\<close> ends the run in the
  \<open>catch\<close> block: \<open>fetchAPI\<close> throws, \<open>JSON.parse\<close> throws, or the structure test
  throws.
\<close>

definition analyze_fails :: "parse_result fetched \<Rightarrow> bool" where
  "analyze_fails reply =
     (case fetchAPI_result reply of
        Inl _ \<Rightarrow> True
      | Inr (ParseThrows _) \<Rightarrow> True
      | Inr (Parses v) \<Rightarrow> (case check_structure v of Inl _ \<Rightarrow> True | Inr _ \<Rightarrow> False))"

section \<open>The page after loading\<close>

text \<open>
  The variables as lines 9 to 15 declare them, after the \<open>DOMContentLoaded\<close> handler
  has set up the chart. The page's mark-up is not part of the script: its elements are
  taken empty and enabled, the character selector present and empty.
\<close>

definition page_loaded :: state where
  "page_loaded =
     initializeChart
       \<lparr>isAnalyzing = False, isSearching = False, isChatting = False,
        chatHistory = [], lastAnalysisData = None, activeCharacter = None,
        chart_data = [],
        storyInput_value = [], statusMessage_text = [], statusMessage_red = False,
        analyzeButton_disabled = False, analysisOutput = PageMarkup,
        analysisOutputSummary = None,
        bookTitleInput_value = [], findSummaryButton_disabled = False,
        searchStatusMessage_text = [], searchStatusMessage_links = [],
        searchStatusMessage_red = False, summaryOutput_hidden = True,
        summaryTextarea_value = [],
        chatOutput = [], chatInput_value = [], chatInput_disabled = False,
        chatInput_focus = False, sendChatButton_disabled = False,
        chatStatusMessage_text = [], chatStatusMessage_red = False,
        characterSlots = Some [],
        requests = [], alerts = [], downloads = []\<rparr>"

section \<open>Notions of the specification\<close>

text \<open>
  The banding the specification gives for the score of a metric: above 70 red, above 40
  amber, otherwise green.
\<close>

definition banding_70_40 :: "int \<Rightarrow> jsstring" where
  "banding_70_40 score =
     (if score > 70 then js ''text-red-600''
      else if score > 40 then js ''text-amber-600''
      else js ''text-green-600'')"


text \<open>
  A chat call succeeds, in the words of the specification, when the call does not fail
  and the reply has a response field.
\<close>

definition has_response_field :: "jsstring option fetched \<Rightarrow> bool" where
  "has_response_field reply =
     (case reply of Ok response \<Rightarrow> (case response of None \<Rightarrow> False | Some _ \<Rightarrow> True)
      | _ \<Rightarrow> False)"

text \<open>Readers of the page: the cards shown, and the average on the summary panel.\<close>

definition shown_cards :: "state \<Rightarrow> card list" where
  "shown_cards s = (case analysisOutput s of Cards cs \<Rightarrow> cs | _ \<Rightarrow> [])"


text \<open>The texts of the three validation messages (lines 337, 494 and 499).\<close>

definition validation_message :: jsstring where
  "validation_message =
     js ''Error: Please enter a longer story (at least 100 characters) for a meaningful analysis.''"

definition no_story_message :: jsstring where
  "no_story_message =
     js ''Error: Please run a successful analysis first to provide character context!''"

definition no_character_message :: jsstring where
  "no_character_message = js ''Error: Please select a character icon to start chatting!''"

section \<open>Scenarios\<close>

text \<open>
  The scenario of the specification: a story of 150 letters \<open>a\<close>, an analysis of seven
  points with the tension scores 10 to 70, the characters \<open>A\<close> and \<open>B\<close>.
\<close>

definition story_150 :: jsstring where
  "story_150 = replicate 150 97"

definition beat :: "int \<Rightarrow> int \<Rightarrow> int \<Rightarrow> int \<Rightarrow> analysis_point" where
  "beat t p a r =
     \<lparr>keyEvent = js ''event'', characterFocus = js ''focus'',
      TensionScore = t, TensionSummary = js ''t'',
      PacingScore = p, PacingSummary = js ''p'',
      AgencyScore = a, AgencySummary = js ''a'',
      ResonanceScore = r, ResonanceSummary = js ''r''\<rparr>"

definition scenario_points :: "analysis_point list" where
  "scenario_points = map (\<lambda>t. beat t 75 45 20) [10, 20, 30, 40, 50, 60, 70]"

definition cast :: "jsstring list" where
  "cast = [js ''A'', js ''B'']"

definition ready :: state where
  "ready = page_loaded\<lparr>storyInput_value := story_150\<rparr>"

definition scenario_run :: state where
  "scenario_run = handleAnalysis (Ok (Parses (JArray scenario_points))) (Ok (Some cast)) ready"

text \<open>While that analysis is awaited, the story is replaced by a short one.\<close>

definition edited_while_analyzing :: state where
  "edited_while_analyzing =
     (fst (handleAnalysis_start ready))\<lparr>storyInput_value := js ''Once upon a time.''\<rparr>"

text \<open>After the scenario's analysis, a second one whose request fails.\<close>

definition failed_rerun :: state where
  "failed_rerun =
     handleAnalysis (Rejected (TypeError (js ''Failed to fetch''))) (Ok (Some cast)) scenario_run"

definition export_day :: jsstring where
  "export_day = js ''2026-01-31''"

text \<open>
  The chat scenario of the specification: the active character is Mina, the transcript
  is empty, the message is Hello. \<open>chat_pending\<close> is the page while the reply is
  awaited; in \<open>no_character_chosen\<close> the same message is sent with no character.
\<close>

definition mina_says_hello :: state where
  "mina_says_hello =
     (setActiveCharacter (Some (js ''Mina'')) ready)\<lparr>chatInput_value := js ''Hello''\<rparr>"

definition chat_pending :: state where
  "chat_pending = fst (handleChat_start mina_says_hello)"

definition no_character_chosen :: state where
  "no_character_chosen = ready\<lparr>chatInput_value := js ''Hello''\<rparr>"

text \<open>
  A character whose name holds mark-up: the analysis of the scenario, answered with this
  one character.
\<close>

definition markup_name :: jsstring where
  "markup_name = js ''A<B''"

definition markup_run :: state where
  "markup_run =
     handleAnalysis (Ok (Parses (JArray scenario_points))) (Ok (Some [markup_name])) ready"

text \<open>The search scenario of the specification.\<close>

definition search_ready :: state where
  "search_ready = page_loaded\<lparr>bookTitleInput_value := js ''Chapter 5 of Dracula''\<rparr>"

definition excerpt_found :: "search_result fetched" where
  "excerpt_found = Ok \<lparr>excerpt = Some (js ''It was...''), sources = None\<rparr>"

section \<open>Strings and numbers\<close>

lemma dropWhile_hd: "s \<noteq> [] \<Longrightarrow> \<not> P (hd s) \<Longrightarrow> dropWhile P s = s"
  by (cases s) auto

text \<open>A text that neither starts nor ends with white space is its own trimmed form.\<close>

lemma trim_unchanged:
  assumes "s \<noteq> []" "\<not> isWhiteSpace (hd s)" "\<not> isWhiteSpace (last s)"
  shows "trim s = s"
proof -
  have a: "dropWhile isWhiteSpace s = s"
    using assms by (simp add: dropWhile_hd)
  have "rev s \<noteq> []" "\<not> isWhiteSpace (hd (rev s))"
    using assms by (simp_all add: hd_rev)
  then have "dropWhile isWhiteSpace (rev s) = rev s"
    by (rule dropWhile_hd)
  with a show ?thesis by (simp add: trim_def)
qed

lemma trim_story_150: "trim story_150 = story_150"
  by (rule trim_unchanged) (simp_all add: story_150_def isWhiteSpace_def)

lemma length_story_150: "length story_150 = 150"
  by (simp add: story_150_def)

lemma trim_Hello: "trim (js ''Hello'') = js ''Hello''"
  by (rule trim_unchanged) (simp_all add: js_def isWhiteSpace_def)

lemma trim_query: "trim (js ''Chapter 5 of Dracula'') = js ''Chapter 5 of Dracula''"
  by (rule trim_unchanged) (simp_all add: js_def isWhiteSpace_def)

lemma js_nonempty: "s \<noteq> [] \<Longrightarrow> js s \<noteq> []"
  by (simp add: js_def)

lemma js_amber_not_red: "js ''text-amber-600'' \<noteq> js ''text-red-600''"
  by (simp add: js_def)

text \<open>\<open>str_includes\<close> is the usual notion: the text has the run somewhere inside.\<close>

lemma str_includes_self: "str_includes s s"
  by (cases s) simp_all

lemma str_includes_append: "str_includes (p @ s) s"
  by (induction p) (simp_all add: str_includes_self)

lemma take_is_prefix: "take (length sub) s = sub \<longleftrightarrow> (\<exists>q. s = sub @ q)"
  by (metis append_eq_conv_conj append_take_drop_id)

lemma str_includes_iff: "str_includes s sub \<longleftrightarrow> (\<exists>p q. s = p @ sub @ q)"
proof (induction s)
  case Nil
  then show ?case by simp
next
  case (Cons c cs)
  show ?case
  proof
    assume "str_includes (c # cs) sub"
    then consider "take (length sub) (c # cs) = sub" | "str_includes cs sub"
      by auto
    then show "\<exists>p q. c # cs = p @ sub @ q"
    proof cases
      case 1
      then obtain q where "c # cs = sub @ q"
        using take_is_prefix by blast
      then have "c # cs = [] @ sub @ q" by simp
      then show ?thesis by blast
    next
      case 2
      with Cons.IH obtain p q where "cs = p @ sub @ q" by blast
      then have "c # cs = (c # p) @ sub @ q" by simp
      then show ?thesis by blast
    qed
  next
    assume "\<exists>p q. c # cs = p @ sub @ q"
    then obtain p q where pq: "c # cs = p @ sub @ q" by blast
    show "str_includes (c # cs) sub"
    proof (cases p)
      case Nil
      with pq have "take (length sub) (c # cs) = sub"
        using take_is_prefix by fastforce
      then show ?thesis by simp
    next
      case (Cons a p')
      with pq have "cs = p' @ sub @ q" by simp
      with Cons.IH have "str_includes cs sub" by blast
      then show ?thesis by simp
    qed
  qed
qed

text \<open>The fold of \<open>reduce\<close> is the sum, and \<open>Math.round\<close> of a quotient is a division.\<close>

lemma foldl_add: "foldl (+) (x::int) xs = x + sum_list xs"
  by (induction xs arbitrary: x) simp_all

lemma reduce_add_nonempty: "xs \<noteq> [] \<Longrightarrow> reduce_add xs = Inr (sum_list xs)"
  by (cases xs) (simp_all add: reduce_add_def foldl_add)

lemma reduce_add_scores:
  "length analysisData = 7 \<Longrightarrow>
   reduce_add (map TensionScore analysisData) = Inr (sum_list (map TensionScore analysisData))"
  by (rule reduce_add_nonempty) auto



section \<open>What the pieces leave as it is\<close>

lemma focus_chatInput_other [simp]:
  "isAnalyzing (focus_chatInput s) = isAnalyzing s"
  "isSearching (focus_chatInput s) = isSearching s"
  "isChatting (focus_chatInput s) = isChatting s"
  "chatHistory (focus_chatInput s) = chatHistory s"
  "lastAnalysisData (focus_chatInput s) = lastAnalysisData s"
  "activeCharacter (focus_chatInput s) = activeCharacter s"
  "chart_data (focus_chatInput s) = chart_data s"
  "storyInput_value (focus_chatInput s) = storyInput_value s"
  "statusMessage_text (focus_chatInput s) = statusMessage_text s"
  "statusMessage_red (focus_chatInput s) = statusMessage_red s"
  "analyzeButton_disabled (focus_chatInput s) = analyzeButton_disabled s"
  "analysisOutput (focus_chatInput s) = analysisOutput s"
  "analysisOutputSummary (focus_chatInput s) = analysisOutputSummary s"
  "bookTitleInput_value (focus_chatInput s) = bookTitleInput_value s"
  "findSummaryButton_disabled (focus_chatInput s) = findSummaryButton_disabled s"
  "searchStatusMessage_text (focus_chatInput s) = searchStatusMessage_text s"
  "searchStatusMessage_links (focus_chatInput s) = searchStatusMessage_links s"
  "searchStatusMessage_red (focus_chatInput s) = searchStatusMessage_red s"
  "summaryOutput_hidden (focus_chatInput s) = summaryOutput_hidden s"
  "summaryTextarea_value (focus_chatInput s) = summaryTextarea_value s"
  "chatOutput (focus_chatInput s) = chatOutput s"
  "chatInput_value (focus_chatInput s) = chatInput_value s"
  "chatInput_disabled (focus_chatInput s) = chatInput_disabled s"
  "sendChatButton_disabled (focus_chatInput s) = sendChatButton_disabled s"
  "chatStatusMessage_text (focus_chatInput s) = chatStatusMessage_text s"
  "chatStatusMessage_red (focus_chatInput s) = chatStatusMessage_red s"
  "characterSlots (focus_chatInput s) = characterSlots s"
  "requests (focus_chatInput s) = requests s"
  "alerts (focus_chatInput s) = alerts s"
  "downloads (focus_chatInput s) = downloads s"
  by (simp_all add: focus_chatInput_def)

lemma focus_chatInput_focus [simp]:
  "chatInput_focus (focus_chatInput s) \<longleftrightarrow> \<not> chatInput_disabled s \<or> chatInput_focus s"
  by (simp add: focus_chatInput_def)

lemma setActiveCharacter_other [simp]:
  "analysisOutput (setActiveCharacter n s) = analysisOutput s"
  "analysisOutputSummary (setActiveCharacter n s) = analysisOutputSummary s"
  "lastAnalysisData (setActiveCharacter n s) = lastAnalysisData s"
  "storyInput_value (setActiveCharacter n s) = storyInput_value s"
  "requests (setActiveCharacter n s) = requests s"
  "downloads (setActiveCharacter n s) = downloads s"
  "alerts (setActiveCharacter n s) = alerts s"
  "isAnalyzing (setActiveCharacter n s) = isAnalyzing s"
  "isSearching (setActiveCharacter n s) = isSearching s"
  "isChatting (setActiveCharacter n s) = isChatting s"
  by (simp_all add: setActiveCharacter_def)

lemma renderCharacterSlots_other [simp]:
  "analysisOutput (renderCharacterSlots cs s) = analysisOutput s"
  "analysisOutputSummary (renderCharacterSlots cs s) = analysisOutputSummary s"
  "lastAnalysisData (renderCharacterSlots cs s) = lastAnalysisData s"
  "storyInput_value (renderCharacterSlots cs s) = storyInput_value s"
  "requests (renderCharacterSlots cs s) = requests s"
  "downloads (renderCharacterSlots cs s) = downloads s"
  "alerts (renderCharacterSlots cs s) = alerts s"
  "isAnalyzing (renderCharacterSlots cs s) = isAnalyzing s"
  "isSearching (renderCharacterSlots cs s) = isSearching s"
  "isChatting (renderCharacterSlots cs s) = isChatting s"
  by (simp_all add: renderCharacterSlots_def Let_def split: option.splits)

lemma updateUI_keeps:
  "updateUI d cs s = Inr s' \<Longrightarrow>
     lastAnalysisData s' = lastAnalysisData s \<and> storyInput_value s' = storyInput_value s
     \<and> requests s' = requests s \<and> downloads s' = downloads s \<and> alerts s' = alerts s
     \<and> isSearching s' = isSearching s \<and> isChatting s' = isChatting s"
  "updateUI d cs s = Inl (e, s') \<Longrightarrow>
     lastAnalysisData s' = lastAnalysisData s \<and> storyInput_value s' = storyInput_value s
     \<and> requests s' = requests s \<and> downloads s' = downloads s \<and> alerts s' = alerts s
     \<and> isSearching s' = isSearching s \<and> isChatting s' = isChatting s"
  by (auto simp add: updateUI_def Let_def split: if_splits sum.splits)

lemma handleAnalysis_extracted_keeps:
  "lastAnalysisData (handleAnalysis_extracted d reply s) = lastAnalysisData s"
  "storyInput_value (handleAnalysis_extracted d reply s) = storyInput_value s"
  "requests (handleAnalysis_extracted d reply s) = requests s"
  "downloads (handleAnalysis_extracted d reply s) = downloads s"
  "alerts (handleAnalysis_extracted d reply s) = alerts s"
  "isSearching (handleAnalysis_extracted d reply s) = isSearching s"
  "isChatting (handleAnalysis_extracted d reply s) = isChatting s"
  "\<not> isAnalyzing (handleAnalysis_extracted d reply s)"
  by (auto simp add: handleAnalysis_extracted_def analysis_finally_def analysis_catch_def Let_def
      dest: updateUI_keeps split: sum.splits prod.splits)

text \<open>
  Each busy flag is written by the pieces of its own handler only, and a handler called
  while its flag is set returns at once: nothing but the handler's own completion clears
  the flag.
\<close>

lemma isAnalyzing_kept:
  "isAnalyzing (setActiveCharacter n s) = isAnalyzing s"
  "isAnalyzing (copySummaryToInput s) = isAnalyzing s"
  "isAnalyzing (downloadAnalysisData today s) = isAnalyzing s"
  "isAnalyzing (fst (findBookSummary_start s)) = isAnalyzing s"
  "isAnalyzing (findBookSummary_resume searchReply s) = isAnalyzing s"
  "isAnalyzing (fst (handleChat_start s)) = isAnalyzing s"
  "isAnalyzing (handleChat_resume chatReply s) = isAnalyzing s"
  "isAnalyzing s \<Longrightarrow> handleAnalysis_start s = (s, None)"
  by (simp_all add: copySummaryToInput_def searchStatus_def
      downloadAnalysisData_def findBookSummary_start_def findBookSummary_resume_def
      handleChat_start_def handleChat_resume_def handleAnalysis_start_def renderMessage_def
      fetchAPI_send_def Let_def split: option.splits sum.splits)

lemma isSearching_kept:
  "isSearching (setActiveCharacter n s) = isSearching s"
  "isSearching (copySummaryToInput s) = isSearching s"
  "isSearching (downloadAnalysisData today s) = isSearching s"
  "isSearching (fst (handleAnalysis_start s)) = isSearching s"
  "isSearching (fst (handleAnalysis_analyzed storyText analyzeReply s)) = isSearching s"
  "isSearching (handleAnalysis_extracted d charactersReply s) = isSearching s"
  "isSearching (fst (handleChat_start s)) = isSearching s"
  "isSearching (handleChat_resume chatReply s) = isSearching s"
  "isSearching s \<Longrightarrow> findBookSummary_start s = (s, False)"
  by (simp_all add: copySummaryToInput_def searchStatus_def
      downloadAnalysisData_def findBookSummary_start_def
      handleChat_start_def handleChat_resume_def handleAnalysis_start_def
      handleAnalysis_analyzed_def analysis_finally_def analysis_catch_def
      handleAnalysis_extracted_keeps renderMessage_def
      fetchAPI_send_def Let_def split: option.splits sum.splits parse_result.splits)

lemma isChatting_kept:
  "isChatting (setActiveCharacter n s) = isChatting s"
  "isChatting (copySummaryToInput s) = isChatting s"
  "isChatting (downloadAnalysisData today s) = isChatting s"
  "isChatting (fst (handleAnalysis_start s)) = isChatting s"
  "isChatting (fst (handleAnalysis_analyzed storyText analyzeReply s)) = isChatting s"
  "isChatting (handleAnalysis_extracted d charactersReply s) = isChatting s"
  "isChatting (fst (findBookSummary_start s)) = isChatting s"
  "isChatting (findBookSummary_resume searchReply s) = isChatting s"
  "isChatting s \<Longrightarrow> handleChat_start s = (s, False)"
  by (simp_all add: copySummaryToInput_def searchStatus_def
      downloadAnalysisData_def findBookSummary_start_def findBookSummary_resume_def
      handleChat_start_def handleAnalysis_start_def
      handleAnalysis_analyzed_def analysis_finally_def analysis_catch_def
      handleAnalysis_extracted_keeps
      fetchAPI_send_def Let_def split: option.splits sum.splits parse_result.splits)

section \<open>Runs of the analysis\<close>

lemma length_scenario_points: "length scenario_points = 7"
  by (simp add: scenario_points_def)

lemma ready_passes: "\<not> isAnalyzing ready" "length (trim (storyInput_value ready)) = 150"
  by (simp_all add: ready_def page_loaded_def initializeChart_def trim_story_150 length_story_150)

text \<open>A run that passes the guards, piece by piece.\<close>

lemma handleAnalysis_start_passes:
  assumes "\<not> isAnalyzing s" "100 \<le> length (trim (storyInput_value s))"
  shows "handleAnalysis_start s =
    (fetchAPI_send (Analyze (trim (storyInput_value s)))
       (s\<lparr>statusMessage_red := False, isAnalyzing := True, analyzeButton_disabled := True,
          statusMessage_text := js ''Analyzing story across 4 dimensions... Please wait.'',
          lastAnalysisData := None, chatInput_disabled := True, sendChatButton_disabled := True\<rparr>),
     Some (trim (storyInput_value s)))"
  using assms by (simp add: handleAnalysis_start_def Let_def)

lemma handleAnalysis_analyzed_seven:
  assumes "length analysisData = 7"
  shows "handleAnalysis_analyzed storyText (Ok (Parses (JArray analysisData))) s =
    (fetchAPI_send (ExtractCharacters storyText) (s\<lparr>lastAnalysisData := Some analysisData\<rparr>),
     Some analysisData)"
  using assms by (simp add: handleAnalysis_analyzed_def fetchAPI_result_def check_structure_def)

lemma handleAnalysis_passes:
  assumes "\<not> isAnalyzing s" "100 \<le> length (trim (storyInput_value s))" "length analysisData = 7"
  shows "handleAnalysis (Ok (Parses (JArray analysisData))) reply s =
    handleAnalysis_extracted analysisData reply
      (fetchAPI_send (ExtractCharacters (trim (storyInput_value s)))
         ((fst (handleAnalysis_start s))\<lparr>lastAnalysisData := Some analysisData\<rparr>))"
  using assms
  by (simp add: handleAnalysis_def handleAnalysis_start_passes handleAnalysis_analyzed_seven)

text \<open>The second piece hands over arrays of seven items only.\<close>

lemma handleAnalysis_analyzed_length:
  "handleAnalysis_analyzed storyText reply s = (s', Some analysisData) \<Longrightarrow> length analysisData = 7"
  by (auto simp add: handleAnalysis_analyzed_def check_structure_def
      split: sum.splits parse_result.splits analysis_json.splits if_splits)

lemma scenario_run_extracted:
  "scenario_run = handleAnalysis_extracted scenario_points (Ok (Some cast))
      (fetchAPI_send (ExtractCharacters (trim (storyInput_value ready)))
         ((fst (handleAnalysis_start ready))\<lparr>lastAnalysisData := Some scenario_points\<rparr>))"
  unfolding scenario_run_def
  by (rule handleAnalysis_passes) (simp_all add: ready_passes length_scenario_points)

text \<open>The cards after the third piece of a run with seven points.\<close>

lemma cards_after_analysis:
  assumes "length analysisData = 7"
  shows "analysisOutput (handleAnalysis_extracted analysisData (Ok characters) s) =
         Cards (map (\<lambda>(index, item). render_card index item) (zip [0 ..< 7] analysisData))"
  using assms reduce_add_scores [OF assms]
  by (simp add: handleAnalysis_extracted_def fetchAPI_result_def updateUI_def Let_def
      analysis_finally_def)

lemma scenario_cards:
  "shown_cards scenario_run =
     map (\<lambda>(index, item). render_card index item) (zip [0 ..< 7] scenario_points)"
  by (simp add: shown_cards_def scenario_run_extracted
      cards_after_analysis [OF length_scenario_points])

text \<open>The selector after the third piece, when the page has one.\<close>

lemma span_text_markup_free: "markup_free name \<Longrightarrow> span_text name = Some name"
  by (simp add: span_text_def)

lemma slots_after_analysis:
  assumes "length analysisData = 7" "characters \<noteq> []" "characterSlots s = Some old"
  shows "characterSlots (handleAnalysis_extracted analysisData (Ok (Some characters)) s) =
     Some (map (\<lambda>name. \<lparr>slot_emoji = getCharacterIcon name, slot_name = name,
                         slot_text = map_option (\<lambda>t. getCharacterIcon name @ t) (span_text name),
                         slot_selected =
                           map_option (\<lambda>t. str_includes (getCharacterIcon name @ t) (hd characters))
                             (span_text name)\<rparr>)
             characters)"
    and "activeCharacter (handleAnalysis_extracted analysisData (Ok (Some characters)) s)
           = Some (hd characters)"
  using assms reduce_add_scores [OF assms(1)]
  by (simp_all add: handleAnalysis_extracted_def fetchAPI_result_def updateUI_def Let_def
      analysis_finally_def renderCharacterSlots_def setActiveCharacter_def
      display_def comp_def option.map_comp)

lemma ready_slots: "characterSlots
    (fetchAPI_send (ExtractCharacters (trim (storyInput_value ready)))
       ((fst (handleAnalysis_start ready))\<lparr>lastAnalysisData := Some scenario_points\<rparr>)) = Some []"
  by (simp add: handleAnalysis_start_passes ready_passes fetchAPI_send_def)
    (simp add: ready_def page_loaded_def initializeChart_def)

lemma icons_A_B:
  "getCharacterIcon (js ''A'') = [55358, 56785]" "getCharacterIcon (js ''B'') = [55358, 56785]"
  by (simp_all add: getCharacterIcon_def toLowerCase_def lowerUnit_def js_def)

lemma span_text_A_B:
  "span_text (js ''A'') = Some (js ''A'')" "span_text (js ''B'') = Some (js ''B'')"
  by (simp_all add: span_text_markup_free markup_free_def js_def)

lemma scenario_run_slots:
  "characterSlots scenario_run =
     Some [\<lparr>slot_emoji = [55358, 56785], slot_name = js ''A'',
             slot_text = Some ([55358, 56785] @ js ''A''), slot_selected = Some True\<rparr>,
           \<lparr>slot_emoji = [55358, 56785], slot_name = js ''B'',
             slot_text = Some ([55358, 56785] @ js ''B''), slot_selected = Some False\<rparr>]"
  using slots_after_analysis(1) [OF length_scenario_points _ ready_slots, of cast]
  by (simp add: scenario_run_extracted [symmetric])
    (simp add: cast_def icons_A_B span_text_A_B, simp add: js_def)

lemma scenario_run_facts:
  "\<not> isAnalyzing scenario_run"
  "trim (storyInput_value scenario_run) = story_150"
  "lastAnalysisData scenario_run = Some scenario_points"
  by (simp_all add: scenario_run_extracted handleAnalysis_extracted_keeps fetchAPI_send_def
      handleAnalysis_start_passes ready_passes)
    (simp add: ready_def trim_story_150)

lemma failed_rerun_eq:
  "failed_rerun = analysis_finally (analysis_catch (TypeError (js ''Failed to fetch''))
      (fst (handleAnalysis_start scenario_run)))"
  by (simp add: failed_rerun_def handleAnalysis_def handleAnalysis_start_passes scenario_run_facts
      length_story_150 handleAnalysis_analyzed_def fetchAPI_result_def)

text \<open>
  A parsed value that is not an array of seven ends the run in the \<open>catch\<close> block:
  the error is shown, the chat stays disabled, no further request is sent, and the busy
  flag is cleared. The message is the one of the structure error unless the value is
  \<open>null\<close>.
\<close>

lemma not_seven:
  assumes "\<forall>items. v = JArray items \<longrightarrow> length items \<noteq> 7"
  shows "check_structure v = Inl (structure_error v)"
  using assms by (cases v) (simp_all add: check_structure_def)

lemma analysis_rejected:
  assumes "\<forall>items. v = JArray items \<longrightarrow> length items \<noteq> 7"
  shows "handleAnalysis_analyzed storyText (Ok (Parses v)) s =
           (analysis_finally (analysis_catch (structure_error v) s), None)"
  by (simp add: handleAnalysis_analyzed_def fetchAPI_result_def not_seven [OF assms])

lemma analysis_catch_chat_disabled:
  "chatInput_disabled (analysis_finally (analysis_catch e s))"
  "sendChatButton_disabled (analysis_finally (analysis_catch e s))"
  "statusMessage_text (analysis_finally (analysis_catch e s)) = js ''Analysis failed.''"
  "analysisOutput (analysis_finally (analysis_catch e s)) = ErrorCard (js ''Error: '' @ message e)"
  "requests (analysis_finally (analysis_catch e s)) = requests s"
  "lastAnalysisData (analysis_finally (analysis_catch e s)) = lastAnalysisData s"
  "\<not> isAnalyzing (analysis_finally (analysis_catch e s))"
  by (simp_all add: analysis_finally_def analysis_catch_def)

lemma structure_error_message:
  assumes "v \<noteq> JNull"
  shows "\<exists>t. structure_error v =
           Error (js ''Analysis structure error: Expected 7 items, got '' @ t @ js ''.'')"
  using assms by (cases v) (auto simp: structure_error_def length_text_def split: option.splits)

section \<open>Runs of the chat and of the search\<close>

lemma mina_says_hello_facts:
  "\<not> isChatting mina_says_hello"
  "\<not> chatInput_disabled mina_says_hello"
  "trim (chatInput_value mina_says_hello) = js ''Hello''"
  "trim (storyInput_value mina_says_hello) = story_150"
  "activeCharacter mina_says_hello = Some (js ''Mina'')"
  "chatHistory mina_says_hello = []"
  "requests mina_says_hello = []"
  by (simp_all add: mina_says_hello_def setActiveCharacter_def ready_def page_loaded_def
      initializeChart_def trim_Hello trim_story_150)

lemma handleChat_start_passes:
  assumes "\<not> isChatting s" "\<not> chatInput_disabled s" "trim (chatInput_value s) \<noteq> []"
    "trim (storyInput_value s) \<noteq> []" "truthy (activeCharacter s)"
  shows "snd (handleChat_start s)"
    and "chatHistory (fst (handleChat_start s)) =
           chatHistory s @ [\<lparr>msg_role = User, msg_parts = [trim (chatInput_value s)]\<rparr>]"
    and "requests (fst (handleChat_start s)) =
           requests s @ [Chat (trim (storyInput_value s))
              (chatHistory s @ [\<lparr>msg_role = User, msg_parts = [trim (chatInput_value s)]\<rparr>])
              (display (activeCharacter s))]"
  using assms
  by (simp_all add: handleChat_start_def Let_def fetchAPI_send_def renderMessage_def)

lemma mina_passes: "snd (handleChat_start mina_says_hello)"
  by (rule handleChat_start_passes)
    (simp_all add: mina_says_hello_facts truthy_def js_def story_150_def)

lemma chat_pending_facts:
  "isChatting chat_pending"
  "chatStatusMessage_text chat_pending = js ''Mina'' @ js '' is thinking...''"
  using mina_passes
  by (simp_all add: chat_pending_def handleChat_start_def Let_def fetchAPI_send_def
      renderMessage_def mina_says_hello_facts display_def split: if_splits)

lemma search_passes: "snd (findBookSummary_start search_ready)"
  by (simp add: findBookSummary_start_def Let_def search_ready_def page_loaded_def
      initializeChart_def trim_query)
    (simp add: js_def)

section \<open>The claims\<close>

text \<open>
  Claim C1, as the code has it. After an analysis of seven points and an answered character
  request there are seven cards; each shows the four metrics Tension, Pacing, Agency and
  Resonance, in this order, with the scores of its point; the colour of every metric's
  score is red above 80, amber above 50 and at most 80, green otherwise. The banding at
  70 and 40 is the one of the card's border, by the tension score of its point.
\<close>

theorem C1_metric_banding:
  assumes "length analysisData = 7"
  shows "length (shown_cards (handleAnalysis_extracted analysisData (Ok characters) s)) = 7
    \<and> (\<forall>i < 7. \<forall>m \<in> set (card_metrics
            (shown_cards (handleAnalysis_extracted analysisData (Ok characters) s) ! i)).
          metric_color m =
            (if metric_score m > 80 then js ''text-red-600''
             else if metric_score m > 50 then js ''text-amber-600''
             else js ''text-green-600''))
    \<and> (\<forall>i < 7.
          map (\<lambda>m. (metric_label m, metric_score m))
            (card_metrics (shown_cards (handleAnalysis_extracted analysisData (Ok characters) s) ! i))
          = [(js ''Tension'', TensionScore (analysisData ! i)),
             (js ''Pacing'', PacingScore (analysisData ! i)),
             (js ''Agency'', AgencyScore (analysisData ! i)),
             (js ''Resonance'', ResonanceScore (analysisData ! i))])
    \<and> (\<forall>i < 7.
          card_border (shown_cards (handleAnalysis_extracted analysisData (Ok characters) s) ! i)
          = (if TensionScore (analysisData ! i) > 70 then js ''border-red-500''
             else if TensionScore (analysisData ! i) > 40 then js ''border-amber-500''
             else js ''border-green-500''))"
proof -
  let ?s = "handleAnalysis_extracted analysisData (Ok characters) s"
  have cards: "shown_cards ?s =
      map (\<lambda>(index, item). render_card index item) (zip [0 ..< 7] analysisData)"
    by (simp add: shown_cards_def cards_after_analysis [OF assms])
  have len: "length (shown_cards ?s) = 7"
    using assms by (simp add: cards)
  have nth: "shown_cards ?s ! i = render_card i (analysisData ! i)" if "i < 7" for i
    using assms that by (simp add: cards)
  have colours: "\<forall>m \<in> set (card_metrics (render_card i item)).
      metric_color m =
        (if metric_score m > 80 then js ''text-red-600''
         else if metric_score m > 50 then js ''text-amber-600''
         else js ''text-green-600'')" for i item
    by (simp add: render_card_def render_metrics_def metric_def getMetricColor_def)
  have labels: "map (\<lambda>m. (metric_label m, metric_score m)) (card_metrics (render_card i item))
      = [(js ''Tension'', TensionScore item), (js ''Pacing'', PacingScore item),
         (js ''Agency'', AgencyScore item), (js ''Resonance'', ResonanceScore item)]" for i item
    by (simp add: render_card_def render_metrics_def metric_def)
  have borders: "card_border (render_card i item)
      = (if TensionScore item > 70 then js ''border-red-500''
         else if TensionScore item > 40 then js ''border-amber-500''
         else js ''border-green-500'')" for i item
    by (simp add: render_card_def cardBorderColor_def)
  show ?thesis
    using len colours labels borders by (simp add: nth)
qed

text \<open>
  In the scenario the first card shows a Pacing score of 75 in amber, where the banding of
  the specification gives red.
\<close>

theorem C1_counterexample:
  "metric_label (card_metrics (shown_cards scenario_run ! 0) ! 1) = js ''Pacing''
   \<and> metric_score (card_metrics (shown_cards scenario_run ! 0) ! 1) = 75
   \<and> metric_color (card_metrics (shown_cards scenario_run ! 0) ! 1) = js ''text-amber-600''
   \<and> banding_70_40 75 = js ''text-red-600''
   \<and> metric_color (card_metrics (shown_cards scenario_run ! 0) ! 1)
       \<noteq> banding_70_40 (metric_score (card_metrics (shown_cards scenario_run ! 0) ! 1))"
  by (simp add: scenario_cards scenario_points_def beat_def render_card_def render_metrics_def
      metric_def getMetricColor_def banding_70_40_def js_amber_not_red)

theorem C1_metric_banding_witness:
  "length scenario_points = 7
   \<and> map (\<lambda>m. (metric_label m, metric_score m))
        (card_metrics (shown_cards (handleAnalysis_extracted scenario_points (Ok (Some cast)) ready) ! 0))
      = [(js ''Tension'', 10), (js ''Pacing'', 75), (js ''Agency'', 45), (js ''Resonance'', 20)]"
proof -
  have "(0::nat) < 7" by simp
  with C1_metric_banding [OF length_scenario_points, of "Some cast" ready]
  have "map (\<lambda>m. (metric_label m, metric_score m))
        (card_metrics (shown_cards (handleAnalysis_extracted scenario_points (Ok (Some cast)) ready) ! 0))
      = [(js ''Tension'', TensionScore (scenario_points ! 0)),
         (js ''Pacing'', PacingScore (scenario_points ! 0)),
         (js ''Agency'', AgencyScore (scenario_points ! 0)),
         (js ''Resonance'', ResonanceScore (scenario_points ! 0))]"
    by blast
  then show ?thesis
    by (simp add: scenario_points_def beat_def)
qed

text \<open>
  Claim C2, as the code has it. When the trimmed story has fewer than 100 characters,
  \<open>handleAnalysis\<close> sends no request and does not reach an \<open>await\<close>. When no analysis
  is in flight it writes the validation message into the status line and marks it red,
  and changes nothing else; when an analysis is in flight it returns at once and changes
  nothing at all.
\<close>

theorem C2_short_story:
  assumes "length (trim (storyInput_value s)) < 100"
  shows "snd (handleAnalysis_start s) = None
    \<and> requests (fst (handleAnalysis_start s)) = requests s
    \<and> handleAnalysis analyzeReply charactersReply s = fst (handleAnalysis_start s)
    \<and> fst (handleAnalysis_start s) =
        (if isAnalyzing s then s
         else s\<lparr>statusMessage_text := validation_message, statusMessage_red := True\<rparr>)"
  using assms
  by (simp add: handleAnalysis_def handleAnalysis_start_def Let_def validation_message_def)

text \<open>
  While an analysis is awaited the story is replaced by a short one and
  \<open>handleAnalysis\<close> is called again: the status line keeps the text of the running
  analysis, no validation message is written.
\<close>

lemma edited_while_analyzing_facts:
  "isAnalyzing edited_while_analyzing"
  "trim (storyInput_value edited_while_analyzing) = js ''Once upon a time.''"
  "statusMessage_text edited_while_analyzing = js ''Analyzing story across 4 dimensions... Please wait.''"
  by (simp_all add: edited_while_analyzing_def handleAnalysis_start_passes ready_passes
      fetchAPI_send_def trim_unchanged js_def isWhiteSpace_def)

theorem C2_counterexample:
  "length (trim (storyInput_value edited_while_analyzing)) < 100
   \<and> handleAnalysis_start edited_while_analyzing = (edited_while_analyzing, None)
   \<and> statusMessage_text (fst (handleAnalysis_start edited_while_analyzing))
       = js ''Analyzing story across 4 dimensions... Please wait.''
   \<and> statusMessage_text (fst (handleAnalysis_start edited_while_analyzing)) \<noteq> validation_message"
  by (simp add: handleAnalysis_start_def edited_while_analyzing_facts validation_message_def)
    (simp add: js_def)

theorem C2_short_story_witness:
  "length (trim (storyInput_value page_loaded)) < 100
   \<and> handleAnalysis_start page_loaded =
       (page_loaded\<lparr>statusMessage_text := validation_message, statusMessage_red := True\<rparr>, None)
   \<and> requests (fst (handleAnalysis_start page_loaded)) = []"
  using C2_short_story [of page_loaded]
  by (simp add: page_loaded_def initializeChart_def trim_def prod_eq_iff)

text \<open>
  Claim C3 at the reply \<open>{"analysis": "null"}\<close>. The parsed value is \<open>null\<close>, which
  is not an array, so the script enters the branch that throws the structure error; the
  message of that error reads \<open>analysisData.length\<close>, which throws a \<open>TypeError\<close>
  first. The run ends in the \<open>catch\<close> block with the text of the \<open>TypeError\<close> on
  the page, not the one of the structure error, which a number in place of the array
  does give.
\<close>

theorem C3_null_analysis:
  "handleAnalysis (Ok (Parses JNull)) (Ok (Some cast)) ready =
     analysis_finally (analysis_catch
       (TypeError (js ''Cannot read properties of null (reading length)''))
       (fst (handleAnalysis_start ready)))
   \<and> analysisOutput (handleAnalysis (Ok (Parses JNull)) (Ok (Some cast)) ready) =
       ErrorCard (js ''Error: '' @ js ''Cannot read properties of null (reading length)'')
   \<and> analysisOutput (handleAnalysis (Ok (Parses JNumber)) (Ok (Some cast)) ready) =
       ErrorCard (js ''Error: '' @ js ''Analysis structure error: Expected 7 items, got ''
                  @ js ''undefined'' @ js ''.'')"
  by (simp add: handleAnalysis_def handleAnalysis_start_passes ready_passes analysis_rejected
      analysis_catch_chat_disabled structure_error_def length_text_def)

text \<open>
  The second piece stores the seven points as soon as the structure test has passed
  (line 361), before the request for the characters, and the \<open>catch\<close> block does not
  take them back: a run that fails after that point keeps its points in
  \<open>lastAnalysisData\<close>. The comments at lines 14 and 104 speak of the latest successful
  analysis.
\<close>

lemma failed_after_analyze_retains:
  assumes "\<not> isAnalyzing s" "100 \<le> length (trim (storyInput_value s))" "length analysisData = 7"
  shows "lastAnalysisData
           (handleAnalysis (Ok (Parses (JArray analysisData))) (Rejected e) s) = Some analysisData"
  using assms
  by (simp add: handleAnalysis_passes handleAnalysis_extracted_keeps fetchAPI_send_def)

lemma analyze_fails_ends:
  assumes "analyze_fails reply"
  shows "snd (handleAnalysis_analyzed storyText reply s) = None"
    and "lastAnalysisData (fst (handleAnalysis_analyzed storyText reply s)) = lastAnalysisData s"
  using assms
  by (auto simp add: analyze_fails_def handleAnalysis_analyzed_def analysis_finally_def
      analysis_catch_def split: sum.splits parse_result.splits)

text \<open>
  Claim C4, as the code has it. A run of \<open>handleAnalysis\<close> that passes its guards and
  gets seven points and an answer to the character request leaves these points in
  \<open>lastAnalysisData\<close>, and an export then saves them. They stay there until the next
  run that passes its guards: a run stopped by its guards and every other handler leave
  \<open>lastAnalysisData\<close> as it is, and so does the third piece of a run with seven
  points and an answered character request, after the second piece has stored them. The first piece of a run that passes its guards clears
  \<open>lastAnalysisData\<close>, and when the \<open>/analyze\<close> step of that run fails (the request
  fails, the reply cannot be parsed, or it is not an array of seven items) nothing is
  retained after the run. With nothing retained, the export shows the alert and saves
  no file.
\<close>

theorem C4_retained_analysis:
  "(\<not> isAnalyzing s \<and> 100 \<le> length (trim (storyInput_value s)) \<and> length analysisData = 7 \<longrightarrow>
      lastAnalysisData (handleAnalysis (Ok (Parses (JArray analysisData))) (Ok characters) s)
        = Some analysisData
      \<and> downloads (downloadAnalysisData (Some date)
            (handleAnalysis (Ok (Parses (JArray analysisData))) (Ok characters) s))
        = downloads (handleAnalysis (Ok (Parses (JArray analysisData))) (Ok characters) s)
           @ [\<lparr>file_name = js ''story-analysis-'' @ date @ js ''.json'',
               file_data = analysisData\<rparr>])
   \<and> (length analysisData = 7 \<longrightarrow>
        lastAnalysisData (fst (handleAnalysis_analyzed storyText (Ok (Parses (JArray analysisData))) s))
          = Some analysisData)
   \<and> (length analysisData = 7 \<longrightarrow>
        lastAnalysisData (handleAnalysis_extracted analysisData (Ok characters) s)
          = lastAnalysisData s)
   \<and> (snd (handleAnalysis_start s) = None \<longrightarrow>
        lastAnalysisData (fst (handleAnalysis_start s)) = lastAnalysisData s)
   \<and> lastAnalysisData (setActiveCharacter name s) = lastAnalysisData s
   \<and> lastAnalysisData (fst (handleChat_start s)) = lastAnalysisData s
   \<and> lastAnalysisData (handleChat_resume chatReply s) = lastAnalysisData s
   \<and> lastAnalysisData (fst (findBookSummary_start s)) = lastAnalysisData s
   \<and> lastAnalysisData (findBookSummary_resume searchReply s) = lastAnalysisData s
   \<and> lastAnalysisData (copySummaryToInput s) = lastAnalysisData s
   \<and> lastAnalysisData (downloadAnalysisData today s) = lastAnalysisData s
   \<and> (snd (handleAnalysis_start s) \<noteq> None \<longrightarrow>
        lastAnalysisData (fst (handleAnalysis_start s)) = None)
   \<and> (analyze_fails analyzeReply \<longrightarrow>
        snd (handleAnalysis_analyzed storyText analyzeReply s) = None
        \<and> lastAnalysisData (fst (handleAnalysis_analyzed storyText analyzeReply s))
            = lastAnalysisData s)
   \<and> (snd (handleAnalysis_start s) \<noteq> None \<and> analyze_fails analyzeReply \<longrightarrow>
        lastAnalysisData (handleAnalysis analyzeReply charactersReply s) = None)
   \<and> (lastAnalysisData s = None \<longrightarrow>
        downloads (downloadAnalysisData today s) = downloads s
        \<and> alerts (downloadAnalysisData today s) =
            alerts s @ [js ''Please run a successful story analysis first.''])"
proof -
  have kept: "lastAnalysisData (handleAnalysis (Ok (Parses (JArray analysisData))) (Ok characters) s)
        = Some analysisData"
    if "\<not> isAnalyzing s" "100 \<le> length (trim (storyInput_value s))" "length analysisData = 7"
    using that
    by (simp add: handleAnalysis_passes handleAnalysis_extracted_keeps fetchAPI_send_def)
  have export: "downloads (downloadAnalysisData (Some date) u) =
      downloads u @ [\<lparr>file_name = js ''story-analysis-'' @ date @ js ''.json'', file_data = d\<rparr>]"
    if "lastAnalysisData u = Some d" for u d
    using that by (simp add: downloadAnalysisData_def)
  have first: "\<not> isAnalyzing s \<and> 100 \<le> length (trim (storyInput_value s))
      \<and> length analysisData = 7 \<longrightarrow>
      lastAnalysisData (handleAnalysis (Ok (Parses (JArray analysisData))) (Ok characters) s)
        = Some analysisData
      \<and> downloads (downloadAnalysisData (Some date)
            (handleAnalysis (Ok (Parses (JArray analysisData))) (Ok characters) s))
        = downloads (handleAnalysis (Ok (Parses (JArray analysisData))) (Ok characters) s)
           @ [\<lparr>file_name = js ''story-analysis-'' @ date @ js ''.json'',
               file_data = analysisData\<rparr>]"
    using kept export [OF kept] by blast
  have stored: "length analysisData = 7 \<longrightarrow>
        lastAnalysisData (fst (handleAnalysis_analyzed storyText (Ok (Parses (JArray analysisData))) s))
          = Some analysisData"
    by (simp add: handleAnalysis_analyzed_seven fetchAPI_send_def)
  have third: "length analysisData = 7 \<longrightarrow>
        lastAnalysisData (handleAnalysis_extracted analysisData (Ok characters) s)
          = lastAnalysisData s"
    by (simp add: handleAnalysis_extracted_keeps)
  have stopped: "snd (handleAnalysis_start s) = None \<longrightarrow>
        lastAnalysisData (fst (handleAnalysis_start s)) = lastAnalysisData s"
    by (simp add: handleAnalysis_start_def Let_def fetchAPI_send_def)
  have others:
    "lastAnalysisData (setActiveCharacter name s) = lastAnalysisData s"
    "lastAnalysisData (fst (handleChat_start s)) = lastAnalysisData s"
    "lastAnalysisData (handleChat_resume chatReply s) = lastAnalysisData s"
    "lastAnalysisData (fst (findBookSummary_start s)) = lastAnalysisData s"
    "lastAnalysisData (findBookSummary_resume searchReply s) = lastAnalysisData s"
    "lastAnalysisData (copySummaryToInput s) = lastAnalysisData s"
    "lastAnalysisData (downloadAnalysisData today s) = lastAnalysisData s"
    by (simp_all add: handleChat_start_def handleChat_resume_def
        findBookSummary_start_def findBookSummary_resume_def copySummaryToInput_def
        downloadAnalysisData_def searchStatus_def renderMessage_def fetchAPI_send_def Let_def
        split: option.splits sum.splits)
  have cleared: "snd (handleAnalysis_start s) \<noteq> None \<longrightarrow>
        lastAnalysisData (fst (handleAnalysis_start s)) = None"
    by (simp add: handleAnalysis_start_def Let_def fetchAPI_send_def)
  have fails: "analyze_fails analyzeReply \<longrightarrow>
        snd (handleAnalysis_analyzed storyText analyzeReply s) = None
        \<and> lastAnalysisData (fst (handleAnalysis_analyzed storyText analyzeReply s))
            = lastAnalysisData s"
    using analyze_fails_ends by blast
  have run_fails: "snd (handleAnalysis_start s) \<noteq> None \<and> analyze_fails analyzeReply \<longrightarrow>
        lastAnalysisData (handleAnalysis analyzeReply charactersReply s) = None"
  proof
    assume a: "snd (handleAnalysis_start s) \<noteq> None \<and> analyze_fails analyzeReply"
    then obtain s1 storyText' where st: "handleAnalysis_start s = (s1, Some storyText')"
      by (cases "handleAnalysis_start s") auto
    with cleared have none: "lastAnalysisData s1 = None" by simp
    from a analyze_fails_ends [of analyzeReply storyText' s1]
    have "snd (handleAnalysis_analyzed storyText' analyzeReply s1) = None"
      "lastAnalysisData (fst (handleAnalysis_analyzed storyText' analyzeReply s1)) = None"
      by (simp_all add: none)
    then show "lastAnalysisData (handleAnalysis analyzeReply charactersReply s) = None"
      by (cases "handleAnalysis_analyzed storyText' analyzeReply s1")
        (simp add: handleAnalysis_def st)
  qed
  have unexported: "lastAnalysisData s = None \<longrightarrow>
        downloads (downloadAnalysisData today s) = downloads s
        \<and> alerts (downloadAnalysisData today s) =
            alerts s @ [js ''Please run a successful story analysis first.'']"
    by (simp add: downloadAnalysisData_def)
  from first stored third stopped others cleared fails run_fails unexported
  show ?thesis by (intro conjI) assumption+
qed

text \<open>
  After the scenario's analysis a second one is started and its request fails: nothing
  is retained any more, and the export saves no file.
\<close>

theorem C4_counterexample:
  "lastAnalysisData scenario_run = Some scenario_points
   \<and> lastAnalysisData failed_rerun = None
   \<and> downloads (downloadAnalysisData (Some export_day) failed_rerun) = downloads failed_rerun
   \<and> alerts (downloadAnalysisData (Some export_day) failed_rerun) =
       alerts failed_rerun @ [js ''Please run a successful story analysis first.'']"
proof -
  have none: "lastAnalysisData failed_rerun = None"
    by (simp add: failed_rerun_eq analysis_finally_def analysis_catch_def
        handleAnalysis_start_passes scenario_run_facts length_story_150 fetchAPI_send_def)
  then show ?thesis
    by (simp add: scenario_run_facts downloadAnalysisData_def)
qed

lemma rerun_passes: "snd (handleAnalysis_start scenario_run) \<noteq> None"
  by (simp add: handleAnalysis_start_passes scenario_run_facts length_story_150)

theorem C4_retained_analysis_witness:
  "\<not> isAnalyzing ready \<and> length (trim (storyInput_value ready)) = 150
   \<and> length scenario_points = 7
   \<and> lastAnalysisData scenario_run = Some scenario_points
   \<and> downloads (downloadAnalysisData (Some export_day) scenario_run) =
       downloads scenario_run @
         [\<lparr>file_name = js ''story-analysis-'' @ export_day @ js ''.json'',
           file_data = scenario_points\<rparr>]
   \<and> snd (handleAnalysis_start scenario_run) \<noteq> None
   \<and> analyze_fails (Rejected (TypeError (js ''Failed to fetch'')))
   \<and> lastAnalysisData
        (handleAnalysis (Rejected (TypeError (js ''Failed to fetch''))) (Ok (Some cast)) scenario_run)
       = None
   \<and> lastAnalysisData page_loaded = None
   \<and> downloads (downloadAnalysisData (Some export_day) page_loaded) = []"
proof -
  have f: "analyze_fails (Rejected (TypeError (js ''Failed to fetch'')))"
    by (simp add: analyze_fails_def fetchAPI_result_def)
  have a: "lastAnalysisData scenario_run = Some scenario_points
     \<and> downloads (downloadAnalysisData (Some export_day) scenario_run) =
       downloads scenario_run @
         [\<lparr>file_name = js ''story-analysis-'' @ export_day @ js ''.json'',
           file_data = scenario_points\<rparr>]"
    using C4_retained_analysis [of ready scenario_points "Some cast" export_day]
    by (simp add: ready_passes length_scenario_points scenario_run_def [symmetric])
  have b: "lastAnalysisData
        (handleAnalysis (Rejected (TypeError (js ''Failed to fetch''))) (Ok (Some cast)) scenario_run)
       = None"
    using rerun_passes f
      C4_retained_analysis [where s = scenario_run
        and analyzeReply = "Rejected (TypeError (js ''Failed to fetch''))"
        and charactersReply = "Ok (Some cast)"]
    by blast
  have c: "lastAnalysisData page_loaded = None
     \<and> downloads (downloadAnalysisData (Some export_day) page_loaded) = []"
    using C4_retained_analysis [where s = page_loaded and today = "Some export_day"]
    by (simp add: page_loaded_def initializeChart_def)
  from a b c f rerun_passes show ?thesis
    by (simp add: ready_passes length_scenario_points)
qed



text \<open>
  Claim C6, as the code has it. When a chat is in flight, the chat input is disabled, the
  trimmed message is empty, the trimmed story is empty or no character is active,
  \<open>handleChat\<close> sends no request and does not reach its \<open>await\<close>. In the first
  three cases it returns without changing anything; with a message but no story it
  writes the message about the missing analysis into the chat status, and with a story
  but no character the message about the missing character, and changes nothing else.
\<close>

theorem C6_chat_guards:
  assumes "isChatting s \<or> chatInput_disabled s \<or> trim (chatInput_value s) = []
     \<or> trim (storyInput_value s) = [] \<or> \<not> truthy (activeCharacter s)"
  shows "snd (handleChat_start s) = False
    \<and> requests (fst (handleChat_start s)) = requests s
    \<and> handleChat reply s = fst (handleChat_start s)
    \<and> fst (handleChat_start s) =
        (if isChatting s \<or> chatInput_disabled s \<or> trim (chatInput_value s) = [] then s
         else if trim (storyInput_value s) = []
         then s\<lparr>chatStatusMessage_text := no_story_message\<rparr>
         else s\<lparr>chatStatusMessage_text := no_character_message\<rparr>)"
  using assms
  by (auto simp add: handleChat_def handleChat_start_def Let_def no_story_message_def
      no_character_message_def)

text \<open>
  With an empty message on the page as loaded, and with a chat in flight, the chat status
  is left as it was: empty in the first case, the text of the pending call in the second.
\<close>

theorem C6_counterexample:
  "trim (chatInput_value page_loaded) = []
   \<and> handleChat_start page_loaded = (page_loaded, False)
   \<and> chatStatusMessage_text (fst (handleChat_start page_loaded)) = []
   \<and> isChatting chat_pending
   \<and> handleChat_start chat_pending = (chat_pending, False)
   \<and> chatStatusMessage_text (fst (handleChat_start chat_pending)) =
       js ''Mina'' @ js '' is thinking...''"
  by (simp add: handleChat_start_def chat_pending_facts)
    (simp add: page_loaded_def initializeChart_def trim_def)

theorem C6_chat_guards_witness:
  "\<not> truthy (activeCharacter no_character_chosen)
   \<and> handleChat_start no_character_chosen =
       (no_character_chosen\<lparr>chatStatusMessage_text := no_character_message\<rparr>, False)
   \<and> requests (fst (handleChat_start no_character_chosen)) = []"
proof -
  have facts: "\<not> isChatting no_character_chosen" "\<not> chatInput_disabled no_character_chosen"
    "trim (chatInput_value no_character_chosen) = js ''Hello''"
    "trim (storyInput_value no_character_chosen) = story_150"
    "activeCharacter no_character_chosen = None"
    "requests no_character_chosen = []"
    by (simp_all add: no_character_chosen_def ready_def page_loaded_def initializeChart_def
        trim_Hello trim_story_150)
  have t: "\<not> truthy (activeCharacter no_character_chosen)"
    by (simp add: facts truthy_def)
  with C6_chat_guards [of no_character_chosen] show ?thesis
    by (simp add: facts prod_eq_iff js_nonempty story_150_def)
qed

text \<open>
  The buttons after \<open>renderCharacterSlots\<close> and a choice, on a page that has the
  selector; the focus after the third piece of an analysis, which makes its own choice
  while the chat input is still disabled (line 312 runs before line 324).
\<close>

lemma rendered_slots:
  assumes "characterSlots s = Some old"
  shows "characterSlots (setActiveCharacter (Some name) (renderCharacterSlots characters s)) =
     Some (map (\<lambda>n. \<lparr>slot_emoji = getCharacterIcon n, slot_name = n,
                      slot_text = map_option (\<lambda>t. getCharacterIcon n @ t) (span_text n),
                      slot_selected =
                        map_option (\<lambda>t. str_includes (getCharacterIcon n @ t) name) (span_text n)\<rparr>)
             characters)"
  using assms
  by (simp add: renderCharacterSlots_def setActiveCharacter_def Let_def
      display_def comp_def option.map_comp)

lemma extracted_chat_enabled:
  assumes "length analysisData = 7"
  shows "\<not> chatInput_disabled (handleAnalysis_extracted analysisData (Ok characters) s)"
  using assms reduce_add_scores [OF assms]
  by (simp add: handleAnalysis_extracted_def fetchAPI_result_def updateUI_def Let_def
      analysis_finally_def)

lemma extracted_focus:
  assumes "length analysisData = 7" "chatInput_disabled s"
  shows "chatInput_focus (handleAnalysis_extracted analysisData (Ok characters) s)
           = chatInput_focus s"
  using assms reduce_add_scores [OF assms(1)]
  by (simp add: handleAnalysis_extracted_def fetchAPI_result_def updateUI_def Let_def
      analysis_finally_def renderCharacterSlots_def setActiveCharacter_def
      split: option.splits)

lemma scenario_run_focus: "\<not> chatInput_disabled scenario_run" "\<not> chatInput_focus scenario_run"
proof -
  show "\<not> chatInput_disabled scenario_run"
    by (simp add: scenario_run_extracted extracted_chat_enabled length_scenario_points)
  have "chatInput_focus scenario_run = chatInput_focus ready"
    by (simp add: scenario_run_extracted extracted_focus length_scenario_points
        handleAnalysis_start_passes ready_passes fetchAPI_send_def)
  then show "\<not> chatInput_focus scenario_run"
    by (simp add: ready_def page_loaded_def initializeChart_def)
qed

lemma markup_name_facts:
  "getCharacterIcon markup_name = [55358, 56785]" "span_text markup_name = Some (js ''A'')"
  by (simp_all add: markup_name_def getCharacterIcon_def toLowerCase_def lowerUnit_def
      span_text_def markup_free_def isAsciiLetter_def js_def)

lemma markup_run_slots:
  "characterSlots markup_run =
     Some [\<lparr>slot_emoji = [55358, 56785], slot_name = markup_name,
             slot_text = Some ([55358, 56785] @ js ''A''), slot_selected = Some False\<rparr>]"
proof -
  have "markup_run = handleAnalysis_extracted scenario_points (Ok (Some [markup_name]))
      (fetchAPI_send (ExtractCharacters (trim (storyInput_value ready)))
         ((fst (handleAnalysis_start ready))\<lparr>lastAnalysisData := Some scenario_points\<rparr>))"
    unfolding markup_run_def
    by (rule handleAnalysis_passes) (simp_all add: ready_passes length_scenario_points)
  with slots_after_analysis(1) [OF length_scenario_points _ ready_slots, of "[markup_name]"]
  show ?thesis
    by (simp add: markup_name_facts) (simp add: markup_name_def js_def)
qed

text \<open>
  Claim C7, as the code has it. For every name, \<open>setActiveCharacter\<close> leaves a
  transcript of length 0 and a chat output with the notice alone, makes the name the
  active character, keeps the buttons of the selector, and selects the buttons by
  whether their text content includes the name: on a selector made by
  \<open>renderCharacterSlots\<close> the button of the chosen character is selected when the
  name holds no mark-up. It calls \<open>focus\<close> on the chat input, which takes the focus when
  it is enabled and is left as it is when it is disabled.
\<close>

theorem C7_switch_character:
  "length (chatHistory (setActiveCharacter (Some name) s)) = 0
   \<and> activeCharacter (setActiveCharacter (Some name) s) = Some name
   \<and> chatOutput (setActiveCharacter (Some name) s) =
       [Notice (js ''Now chatting as '' @ name @ js ''. Ask them about the story context!'')]
   \<and> (\<not> chatInput_disabled s \<longrightarrow> chatInput_focus (setActiveCharacter (Some name) s))
   \<and> (chatInput_disabled s \<longrightarrow>
        chatInput_focus (setActiveCharacter (Some name) s) = chatInput_focus s)
   \<and> map_option (map slot_name) (characterSlots (setActiveCharacter (Some name) s))
       = map_option (map slot_name) (characterSlots s)
   \<and> (\<forall>slots icon. characterSlots (setActiveCharacter (Some name) s) = Some slots
         \<longrightarrow> icon \<in> set slots
         \<longrightarrow> slot_selected icon = map_option (\<lambda>t. str_includes t name) (slot_text icon))
   \<and> (\<forall>slots icon. markup_free name \<longrightarrow> characterSlots s \<noteq> None
         \<longrightarrow> characterSlots (setActiveCharacter (Some name) (renderCharacterSlots characters s))
               = Some slots
         \<longrightarrow> icon \<in> set slots \<longrightarrow> slot_name icon = name
         \<longrightarrow> slot_text icon = Some (slot_emoji icon @ name) \<and> slot_selected icon = Some True)"
proof -
  have sel: "slot_selected icon = map_option (\<lambda>t. str_includes t name) (slot_text icon)"
    if "characterSlots (setActiveCharacter (Some name) s) = Some slots" "icon \<in> set slots"
    for slots icon
    using that by (auto simp: setActiveCharacter_def display_def)
  have chosen: "slot_text icon = Some (slot_emoji icon @ name) \<and> slot_selected icon = Some True"
    if "markup_free name" "characterSlots s \<noteq> None"
       "characterSlots (setActiveCharacter (Some name) (renderCharacterSlots characters s))
          = Some slots"
       "icon \<in> set slots" "slot_name icon = name"
    for slots icon
  proof -
    let ?button = "\<lambda>n. \<lparr>slot_emoji = getCharacterIcon n, slot_name = n,
        slot_text = map_option (\<lambda>t. getCharacterIcon n @ t) (span_text n),
        slot_selected =
          map_option (\<lambda>t. str_includes (getCharacterIcon n @ t) name) (span_text n)\<rparr>"
    from that(2) obtain old where "characterSlots s = Some old" by auto
    from rendered_slots [OF this, of name characters] that(3)
    have "slots = map ?button characters" by simp
    with that(4) obtain n where n: "icon = ?button n" by auto
    with that(5) have "n = name" by simp
    with n have "icon = ?button name" by simp
    then show ?thesis
      by (simp add: span_text_markup_free [OF that(1)] str_includes_append)
  qed
  have names: "map_option (map slot_name) (characterSlots (setActiveCharacter (Some name) s))
       = map_option (map slot_name) (characterSlots s)"
    by (cases "characterSlots s")
      (simp_all add: setActiveCharacter_def comp_def)
  have rest: "length (chatHistory (setActiveCharacter (Some name) s)) = 0"
    "activeCharacter (setActiveCharacter (Some name) s) = Some name"
    "chatOutput (setActiveCharacter (Some name) s) =
       [Notice (js ''Now chatting as '' @ name @ js ''. Ask them about the story context!'')]"
    "\<not> chatInput_disabled s \<longrightarrow> chatInput_focus (setActiveCharacter (Some name) s)"
    "chatInput_disabled s \<longrightarrow>
        chatInput_focus (setActiveCharacter (Some name) s) = chatInput_focus s"
    by (simp_all add: setActiveCharacter_def display_def)
  from sel chosen names rest show ?thesis by blast
qed

text \<open>
  The character of the scenario with mark-up in its name is chosen: the text of its
  button is the emoji and the letter before the mark-up, and the button is not selected.
  And a character is chosen while a second analysis is awaited and the chat input is
  disabled: the input does not take the focus.
\<close>

theorem C7_counterexample:
  "activeCharacter (setActiveCharacter (Some markup_name) markup_run) = Some markup_name
   \<and> map_option (map slot_name) (characterSlots (setActiveCharacter (Some markup_name) markup_run))
       = Some [markup_name]
   \<and> map_option (map slot_text) (characterSlots (setActiveCharacter (Some markup_name) markup_run))
       = Some [Some ([55358, 56785] @ js ''A'')]
   \<and> map_option (map slot_selected)
        (characterSlots (setActiveCharacter (Some markup_name) markup_run))
       = Some [Some False]
   \<and> chatInput_disabled (fst (handleAnalysis_start scenario_run))
   \<and> \<not> chatInput_focus
         (setActiveCharacter (Some (js ''B'')) (fst (handleAnalysis_start scenario_run)))"
proof -
  have a: "activeCharacter (setActiveCharacter (Some markup_name) markup_run) = Some markup_name"
    "characterSlots (setActiveCharacter (Some markup_name) markup_run) =
       Some [\<lparr>slot_emoji = [55358, 56785], slot_name = markup_name,
               slot_text = Some ([55358, 56785] @ js ''A''), slot_selected = Some False\<rparr>]"
    by (simp_all add: setActiveCharacter_def display_def markup_run_slots)
      (simp add: markup_name_def js_def)
  have b: "chatInput_disabled (fst (handleAnalysis_start scenario_run))"
    "\<not> chatInput_focus (fst (handleAnalysis_start scenario_run))"
    by (simp_all add: handleAnalysis_start_passes scenario_run_facts length_story_150
        fetchAPI_send_def scenario_run_focus)
  then have c: "\<not> chatInput_focus
         (setActiveCharacter (Some (js ''B'')) (fst (handleAnalysis_start scenario_run)))"
    by (simp add: setActiveCharacter_def)
  from a b c show ?thesis by simp
qed

theorem C7_switch_character_witness:
  "map_option (map (\<lambda>icon. (slot_name icon, slot_selected icon))) (characterSlots scenario_run)
     = Some [(js ''A'', Some True), (js ''B'', Some False)]
   \<and> map_option (map (\<lambda>icon. (slot_name icon, slot_selected icon)))
        (characterSlots (setActiveCharacter (Some (js ''B'')) scenario_run))
     = Some [(js ''A'', Some False), (js ''B'', Some True)]
   \<and> chatHistory (setActiveCharacter (Some (js ''B'')) scenario_run) = []
   \<and> activeCharacter (setActiveCharacter (Some (js ''B'')) scenario_run) = Some (js ''B'')
   \<and> \<not> chatInput_disabled scenario_run
   \<and> chatInput_focus (setActiveCharacter (Some (js ''B'')) scenario_run)"
  using C7_switch_character [of "js ''B''" scenario_run]
  by (simp add: scenario_run_slots scenario_run_focus setActiveCharacter_def
      display_def)
    (simp add: js_def)

text \<open>
  Claim C8. After an analysis of seven points whose character request is answered with a
  non-empty list, on a page that has the selector element, the selector has one button
  per character, in the order of the list, each with the icon of its name, and the active
  character is the first of the list.
\<close>

theorem C8_character_selector:
  assumes "length analysisData = 7" "characters \<noteq> []" "characterSlots s \<noteq> None"
  shows "map_option (map slot_name)
           (characterSlots (handleAnalysis_extracted analysisData (Ok (Some characters)) s))
         = Some characters
     \<and> map_option (map slot_emoji)
           (characterSlots (handleAnalysis_extracted analysisData (Ok (Some characters)) s))
         = Some (map getCharacterIcon characters)
     \<and> map_option length
           (characterSlots (handleAnalysis_extracted analysisData (Ok (Some characters)) s))
         = Some (length characters)
     \<and> activeCharacter (handleAnalysis_extracted analysisData (Ok (Some characters)) s)
         = Some (hd characters)"
proof -
  from assms(3) obtain old where "characterSlots s = Some old" by auto
  from slots_after_analysis [OF assms(1,2) this] show ?thesis
    by (simp add: comp_def)
qed

theorem C8_character_selector_witness:
  "length scenario_points = 7 \<and> cast = [js ''A'', js ''B'']
   \<and> map_option (map slot_name) (characterSlots scenario_run) = Some [js ''A'', js ''B'']
   \<and> map_option length (characterSlots scenario_run) = Some 2
   \<and> activeCharacter scenario_run = Some (js ''A'')"
  using C8_character_selector [OF length_scenario_points, of cast
      "fetchAPI_send (ExtractCharacters (trim (storyInput_value ready)))
         ((fst (handleAnalysis_start ready))\<lparr>lastAnalysisData := Some scenario_points\<rparr>)"]
  by (simp add: scenario_run_extracted [symmetric] ready_slots)
    (auto simp add: cast_def length_scenario_points)

text \<open>
  Claim C9. A first piece that reaches its \<open>await\<close> leaves the busy flag of its handler
  set; the second piece of the analysis leaves the flag as it is when it goes on to the
  second request; every piece that ends a handler leaves the flag cleared, whatever the
  reply; so after a whole run that passed its guards the flag is cleared.
\<close>

theorem C9_busy_flags:
  "(snd (handleAnalysis_start s) \<noteq> None \<longrightarrow> isAnalyzing (fst (handleAnalysis_start s)))
   \<and> (snd (handleAnalysis_analyzed storyText analyzeReply s) \<noteq> None \<longrightarrow>
        isAnalyzing (fst (handleAnalysis_analyzed storyText analyzeReply s)) = isAnalyzing s)
   \<and> (snd (handleAnalysis_analyzed storyText analyzeReply s) = None \<longrightarrow>
        \<not> isAnalyzing (fst (handleAnalysis_analyzed storyText analyzeReply s)))
   \<and> \<not> isAnalyzing (handleAnalysis_extracted analysisData charactersReply s)
   \<and> (snd (handleAnalysis_start s) \<noteq> None \<longrightarrow>
        \<not> isAnalyzing (handleAnalysis analyzeReply charactersReply s))
   \<and> (snd (findBookSummary_start s) \<longrightarrow> isSearching (fst (findBookSummary_start s)))
   \<and> \<not> isSearching (findBookSummary_resume searchReply s)
   \<and> (snd (findBookSummary_start s) \<longrightarrow> \<not> isSearching (findBookSummary searchReply s))
   \<and> (snd (handleChat_start s) \<longrightarrow> isChatting (fst (handleChat_start s)))
   \<and> \<not> isChatting (handleChat_resume chatReply s)
   \<and> (snd (handleChat_start s) \<longrightarrow> \<not> isChatting (handleChat chatReply s))"
proof -
  have a1: "snd (handleAnalysis_start s) \<noteq> None \<longrightarrow> isAnalyzing (fst (handleAnalysis_start s))"
    by (simp add: handleAnalysis_start_def Let_def fetchAPI_send_def)
  have a2: "snd (handleAnalysis_analyzed storyText analyzeReply t) \<noteq> None \<longrightarrow>
        isAnalyzing (fst (handleAnalysis_analyzed storyText analyzeReply t)) = isAnalyzing t" for t
    by (simp add: handleAnalysis_analyzed_def fetchAPI_send_def
        split: sum.splits parse_result.splits)
  have a3: "snd (handleAnalysis_analyzed st analyzeReply t) = None \<longrightarrow>
        \<not> isAnalyzing (fst (handleAnalysis_analyzed st analyzeReply t))" for st t
    by (simp add: handleAnalysis_analyzed_def analysis_finally_def
        split: sum.splits parse_result.splits)
  have a4: "\<not> isAnalyzing (handleAnalysis_extracted d charactersReply t)" for d t
    by (simp add: handleAnalysis_extracted_def analysis_finally_def Let_def
        split: sum.splits prod.splits)
  have a3': "\<not> isAnalyzing t'" if "handleAnalysis_analyzed st analyzeReply t = (t', None)" for st t t'
    using a3 [of st t] that by simp
  have a5: "snd (handleAnalysis_start s) \<noteq> None \<longrightarrow>
        \<not> isAnalyzing (handleAnalysis analyzeReply charactersReply s)"
    using a3' a4 by (auto simp: handleAnalysis_def split: prod.splits option.splits)
  have b1: "snd (findBookSummary_start s) \<longrightarrow> isSearching (fst (findBookSummary_start s))"
    by (simp add: findBookSummary_start_def Let_def fetchAPI_send_def searchStatus_def)
  have b2: "\<not> isSearching (findBookSummary_resume searchReply t)" for t
    by (simp add: findBookSummary_resume_def Let_def)
  have b3: "snd (findBookSummary_start s) \<longrightarrow> \<not> isSearching (findBookSummary searchReply s)"
    using b2 by (auto simp: findBookSummary_def split: prod.splits)
  have c1: "snd (handleChat_start s) \<longrightarrow> isChatting (fst (handleChat_start s))"
    by (simp add: handleChat_start_def Let_def fetchAPI_send_def)
  have c2: "\<not> isChatting (handleChat_resume chatReply t)" for t
    by (simp add: handleChat_resume_def Let_def)
  have c3: "snd (handleChat_start s) \<longrightarrow> \<not> isChatting (handleChat chatReply s)"
    using c2 by (auto simp: handleChat_def split: prod.splits)
  from a1 a2 a3 a4 a5 b1 b2 b3 c1 c2 c3 show ?thesis by blast
qed

theorem C9_busy_flags_witness:
  "snd (handleAnalysis_start ready) \<noteq> None
   \<and> isAnalyzing (fst (handleAnalysis_start ready))
   \<and> \<not> isAnalyzing scenario_run
   \<and> \<not> isAnalyzing (handleAnalysis (Rejected (TypeError (js ''Failed to fetch''))) (Ok None) ready)
   \<and> snd (findBookSummary_start search_ready)
   \<and> isSearching (fst (findBookSummary_start search_ready))
   \<and> \<not> isSearching (findBookSummary excerpt_found search_ready)
   \<and> snd (handleChat_start mina_says_hello)
   \<and> isChatting chat_pending
   \<and> \<not> isChatting (handleChat (Rejected (TypeError (js ''Failed to fetch''))) mina_says_hello)"
proof -
  have p: "snd (handleAnalysis_start ready) \<noteq> None"
    by (simp add: handleAnalysis_start_passes ready_passes)
  from p C9_busy_flags [where s = ready and analyzeReply = "Ok (Parses (JArray scenario_points))"
      and charactersReply = "Ok (Some cast)"]
  have a: "isAnalyzing (fst (handleAnalysis_start ready))" "\<not> isAnalyzing scenario_run"
    by (simp_all add: scenario_run_def)
  from p C9_busy_flags [where s = ready and analyzeReply = "Rejected (TypeError (js ''Failed to fetch''))"
      and charactersReply = "Ok None"]
  have b: "\<not> isAnalyzing (handleAnalysis (Rejected (TypeError (js ''Failed to fetch''))) (Ok None) ready)"
    by simp
  from search_passes C9_busy_flags [where s = search_ready and searchReply = excerpt_found]
  have d: "isSearching (fst (findBookSummary_start search_ready))"
    "\<not> isSearching (findBookSummary excerpt_found search_ready)"
    by simp_all
  from mina_passes C9_busy_flags [where s = mina_says_hello
      and chatReply = "Rejected (TypeError (js ''Failed to fetch''))"]
  have c: "isChatting chat_pending"
    "\<not> isChatting (handleChat (Rejected (TypeError (js ''Failed to fetch''))) mina_says_hello)"
    by (simp_all add: chat_pending_def)
  from p a b c d search_passes mina_passes show ?thesis by simp
qed

text \<open>The transcript after the second piece, and a whole run as its two pieces.\<close>

lemma handleChat_resume_history:
  "chatHistory (handleChat_resume reply u) =
     (if truthy_response reply
      then chatHistory u @ [\<lparr>msg_role = Model, msg_parts = [response_of reply]\<rparr>]
      else chatHistory u)"
  by (cases reply)
    (simp_all add: handleChat_resume_def Let_def fetchAPI_result_def
      renderMessage_def truthy_response_def response_of_def)

lemma handleChat_run:
  "snd (handleChat_start s) \<Longrightarrow> handleChat reply s = handleChat_resume reply (fst (handleChat_start s))"
  by (cases "handleChat_start s") (auto simp: handleChat_def)

text \<open>
  Claim C10, as the code has it. A first piece of \<open>handleChat\<close> that reaches its
  \<open>await\<close> has appended the user's message to the transcript, and the request it sent
  carries the transcript with that message. The second piece appends the model's message
  to the transcript as it then is when the call did not fail and the response is there
  and not empty, and nothing otherwise; it sends no request. So a whole run with nothing
  running in between makes the transcript longer by two entries, the user's and then the
  model's, in the first case, and by the user's entry alone in the second. When a
  character is chosen while the reply is awaited, the transcript after the second piece
  is the model's message alone, or empty.
\<close>

theorem C10_transcript_growth:
  "(snd (handleChat_start s) \<longrightarrow>
      chatHistory (fst (handleChat_start s)) =
        chatHistory s @ [\<lparr>msg_role = User, msg_parts = [trim (chatInput_value s)]\<rparr>]
      \<and> requests (fst (handleChat_start s)) =
        requests s @ [Chat (trim (storyInput_value s))
           (chatHistory s @ [\<lparr>msg_role = User, msg_parts = [trim (chatInput_value s)]\<rparr>])
           (display (activeCharacter s))])
   \<and> chatHistory (handleChat_resume reply t) =
       (if truthy_response reply
        then chatHistory t @ [\<lparr>msg_role = Model, msg_parts = [response_of reply]\<rparr>]
        else chatHistory t)
   \<and> requests (handleChat_resume reply t) = requests t
   \<and> (snd (handleChat_start s) \<longrightarrow>
        chatHistory (handleChat reply s) =
          chatHistory s @ [\<lparr>msg_role = User, msg_parts = [trim (chatInput_value s)]\<rparr>]
            @ (if truthy_response reply
               then [\<lparr>msg_role = Model, msg_parts = [response_of reply]\<rparr>] else []))
   \<and> (snd (handleChat_start s) \<longrightarrow>
        length (chatHistory (handleChat reply s)) =
          length (chatHistory s) + (if truthy_response reply then 2 else 1))
   \<and> chatHistory (handleChat_resume reply (setActiveCharacter name (fst (handleChat_start s)))) =
       (if truthy_response reply
        then [\<lparr>msg_role = Model, msg_parts = [response_of reply]\<rparr>] else [])"
proof -
  have start: "chatHistory (fst (handleChat_start s)) =
        chatHistory s @ [\<lparr>msg_role = User, msg_parts = [trim (chatInput_value s)]\<rparr>]
      \<and> requests (fst (handleChat_start s)) =
        requests s @ [Chat (trim (storyInput_value s))
           (chatHistory s @ [\<lparr>msg_role = User, msg_parts = [trim (chatInput_value s)]\<rparr>])
           (display (activeCharacter s))]"
    if "snd (handleChat_start s)"
    using that
    by (simp add: handleChat_start_def Let_def fetchAPI_send_def renderMessage_def
        split: if_splits)
  have resume: "chatHistory (handleChat_resume reply u) =
       (if truthy_response reply
        then chatHistory u @ [\<lparr>msg_role = Model, msg_parts = [response_of reply]\<rparr>]
        else chatHistory u)" for u
    by (rule handleChat_resume_history)
  have calls: "requests (handleChat_resume reply t) = requests t"
    by (cases reply)
      (simp_all add: handleChat_resume_def Let_def fetchAPI_result_def
        renderMessage_def)
  have whole: "chatHistory (handleChat reply s) =
          chatHistory s @ [\<lparr>msg_role = User, msg_parts = [trim (chatInput_value s)]\<rparr>]
            @ (if truthy_response reply
               then [\<lparr>msg_role = Model, msg_parts = [response_of reply]\<rparr>] else [])"
    if "snd (handleChat_start s)"
    using start [OF that] by (simp add: handleChat_run [OF that] resume)
  have count: "length (chatHistory (handleChat reply s)) =
          length (chatHistory s) + (if truthy_response reply then 2 else 1)"
    if "snd (handleChat_start s)"
    by (simp add: whole [OF that])
  have switched: "chatHistory (handleChat_resume reply (setActiveCharacter name (fst (handleChat_start s)))) =
       (if truthy_response reply
        then [\<lparr>msg_role = Model, msg_parts = [response_of reply]\<rparr>] else [])"
    by (simp add: resume) (simp add: setActiveCharacter_def)
  from start resume calls whole count switched show ?thesis by blast
qed

text \<open>
  In the chat scenario the call is answered with a reply whose response is the empty
  string: the call did not fail and the reply has the field, and the transcript has grown
  by the user's entry alone. And another character is chosen while the reply is awaited:
  after the reply the transcript holds the model's message alone.
\<close>

theorem C10_counterexample:
  "snd (handleChat_start mina_says_hello)
   \<and> chatHistory mina_says_hello = []
   \<and> has_response_field (Ok (Some []))
   \<and> chatHistory (handleChat (Ok (Some [])) mina_says_hello) =
       [\<lparr>msg_role = User, msg_parts = [js ''Hello'']\<rparr>]
   \<and> chatHistory
        (handleChat_resume (Ok (Some (js ''Hello traveler'')))
           (setActiveCharacter (Some (js ''Jonathan'')) chat_pending)) =
       [\<lparr>msg_role = Model, msg_parts = [js ''Hello traveler'']\<rparr>]"
proof -
  have a: "chatHistory (handleChat (Ok (Some [])) mina_says_hello) =
       [\<lparr>msg_role = User, msg_parts = [js ''Hello'']\<rparr>]"
    using handleChat_start_passes(2) [of mina_says_hello]
    by (simp add: handleChat_run [OF mina_passes] handleChat_resume_history truthy_response_def
        truthy_def mina_says_hello_facts js_nonempty story_150_def)
  have b: "chatHistory
        (handleChat_resume (Ok (Some (js ''Hello traveler'')))
           (setActiveCharacter (Some (js ''Jonathan'')) chat_pending)) =
       [\<lparr>msg_role = Model, msg_parts = [js ''Hello traveler'']\<rparr>]"
    by (simp add: handleChat_resume_history truthy_response_def response_of_def truthy_def
        display_def js_nonempty)
      (simp add: setActiveCharacter_def)
  from a b mina_passes show ?thesis
    by (simp add: mina_says_hello_facts has_response_field_def)
qed

theorem C10_transcript_growth_witness:
  "snd (handleChat_start mina_says_hello)
   \<and> chatHistory mina_says_hello = []
   \<and> chatHistory (handleChat (Ok (Some (js ''Hello traveler''))) mina_says_hello) =
       [\<lparr>msg_role = User, msg_parts = [js ''Hello'']\<rparr>,
        \<lparr>msg_role = Model, msg_parts = [js ''Hello traveler'']\<rparr>]
   \<and> chatHistory (handleChat (Ok None) mina_says_hello) =
       [\<lparr>msg_role = User, msg_parts = [js ''Hello'']\<rparr>]
   \<and> chatHistory (handleChat (NotOk 500 None) mina_says_hello) =
       [\<lparr>msg_role = User, msg_parts = [js ''Hello'']\<rparr>]"
  using mina_passes
    C10_transcript_growth [of mina_says_hello "Ok (Some (js ''Hello traveler''))"]
    C10_transcript_growth [of mina_says_hello "Ok None"]
    C10_transcript_growth [of mina_says_hello "NotOk 500 None"]
  by (simp add: mina_says_hello_facts truthy_response_def response_of_def truthy_def display_def
      js_nonempty)


end
